theory Spec2Isabelle
  imports Complex_Main "HOL-Library.AList" "HOL-Library.List_Lexorder" "HOL-Library.Char_ord"
begin

section \<open>JavaScript values\<close>

text \<open>
  The route handlers work on untyped JSON: a request body field may be absent
  (\<open>undefined\<close>), \<open>null\<close>, a boolean, a number, a string, an array or an object, and
  the handlers test such values for truthiness (\<open>!x\<close>, \<open>x || null\<close>, \<open>if (x)\<close>), with
  \<open>typeof\<close> and with strict equality. Numbers are the reals that JSON literals denote:
  the handlers only compare them with constants and test them against zero (a JSON body
  cannot carry NaN). \<open>JHost n\<close> is an object with methods that is held by reference, such
  as the Socket.io server; \<open>n\<close> is its identity.
\<close>

datatype jsval =
    JUndefined
  | JNull
  | JBool bool
  | JNum real
  | JStr string
  | JArr "jsval list"
  | JObj "(string \<times> jsval) list"
  | JHost nat

fun truthy :: "jsval \<Rightarrow> bool" where
  "truthy JUndefined = False"
| "truthy JNull = False"
| "truthy (JBool b) = b"
| "truthy (JNum x) = (x \<noteq> 0)"
| "truthy (JStr s) = (s \<noteq> [])"
| "truthy (JArr _) = True"
| "truthy (JObj _) = True"
| "truthy (JHost _) = True"

fun typeof :: "jsval \<Rightarrow> string" where
  "typeof JUndefined = ''undefined''"
| "typeof JNull = ''object''"
| "typeof (JBool _) = ''boolean''"
| "typeof (JNum _) = ''number''"
| "typeof (JStr _) = ''string''"
| "typeof (JArr _) = ''object''"
| "typeof (JObj _) = ''object''"
| "typeof (JHost _) = ''object''"

text \<open>
  \<open>a === b\<close>: primitives are compared by value. An array or object literal that came
  out of a JSON body or out of the store is a fresh reference, so it is never strictly
  equal to anything the handler compares it with.
\<close>

fun strict_eq :: "jsval \<Rightarrow> jsval \<Rightarrow> bool" where
  "strict_eq (JArr _) _ = False"
| "strict_eq (JObj _) _ = False"
| "strict_eq a b = (a = b)"

text \<open>\<open>a || b\<close>\<close>

definition js_or :: "jsval \<Rightarrow> jsval \<Rightarrow> jsval" where
  "js_or a b = (if truthy a then a else b)"

text \<open>
  \<open>o.k\<close> on a plain object, which lists each of its keys once: a missing key reads as
  \<open>undefined\<close>.
\<close>

definition get :: "(string \<times> jsval) list \<Rightarrow> string \<Rightarrow> jsval" where
  "get obj k = (case map_of obj k of None \<Rightarrow> JUndefined | Some v \<Rightarrow> v)"

text \<open>\<open>[...].includes(v)\<close> on an array of string literals.\<close>

definition js_includes :: "string list \<Rightarrow> jsval \<Rightarrow> bool" where
  "js_includes xs v = (case v of JStr s \<Rightarrow> s \<in> set xs | _ \<Rightarrow> False)"

datatype js_error = Error string

text \<open>
  \<open>x.trim()\<close>: only a string has the method; on any other value the call is a TypeError
  (on \<open>undefined\<close> and \<open>null\<close> already the property read is). The wording of the
  error message is the JavaScript engine's; no handler reads it.
\<close>

definition is_space :: "char \<Rightarrow> bool" where
  "is_space c = (c \<in> set [CHR '' '', CHR 0x09, CHR 0x0A, CHR 0x0B, CHR 0x0C, CHR 0x0D])"

definition trim_string :: "string \<Rightarrow> string" where
  "trim_string s = rev (dropWhile is_space (rev (dropWhile is_space s)))"

definition trim :: "jsval \<Rightarrow> js_error + jsval" where
  "trim v = (case v of JStr s \<Rightarrow> Inr (JStr (trim_string s))
             | _ \<Rightarrow> Inl (Error ''trim is not a function''))"

text \<open>\<open>x?.trim()\<close>: \<open>undefined\<close> when \<open>x\<close> is \<open>undefined\<close> or \<open>null\<close>.\<close>

definition opt_trim :: "jsval \<Rightarrow> js_error + jsval" where
  "opt_trim v = (if v = JUndefined \<or> v = JNull then Inr JUndefined else trim v)"

section \<open>The persistent store\<close>

text \<open>
  The handlers reach the hosted relational store through its query client. The store
  is modelled as tables of rows; a row lists its columns, and a column that is not
  listed is SQL \<open>NULL\<close>, which the client hands to JavaScript as \<open>null\<close>. The model
  store is reliable: a call fails only where the query itself makes it fail (a
  \<open>.single()\<close> that does not find exactly one row). Constraint violations, unknown
  columns and network failures are outside the model. Filter literals are the values
  as the store reads them after its own cast to the column type.
\<close>

type_synonym row = "(string \<times> jsval) list"

datatype store_write =
    Insert string row
  | Update string row string jsval
  | Delete string string jsval

record state =
  db :: "string \<Rightarrow> row list"
  journal :: "store_write list"
  seq :: nat
  io :: jsval
  emitted :: "(string \<times> jsval) list"

definition col :: "row \<Rightarrow> string \<Rightarrow> jsval" where
  "col r k = (case map_of r k of None \<Rightarrow> JNull | Some v \<Rightarrow> v)"

text \<open>
  The client sends an object to the store as JSON text, and \<open>JSON.stringify\<close> leaves
  out the keys whose value is \<open>undefined\<close>.
\<close>

definition to_json :: "row \<Rightarrow> row" where
  "to_json obj = filter (\<lambda>(k, v). v \<noteq> JUndefined) obj"

text \<open>\<open>SET k = v\<close> for every entry of the update object.\<close>

definition set_cols :: "row \<Rightarrow> row \<Rightarrow> row" where
  "set_cols r upd = fold (\<lambda>(k, v). AList.update k v) (to_json upd) r"

text \<open>
  \<open>.single()\<close>: the result must be exactly one row; otherwise the client returns
  \<open>{ data: null, error }\<close> with the store's error PGRST116, whose message is the
  store's.
\<close>

definition PGRST116 :: js_error where
  "PGRST116 = Error ''JSON object requested, multiple (or no) rows returned''"

definition single :: "row list \<Rightarrow> js_error + row" where
  "single rows = (case rows of [r] \<Rightarrow> Inr r | _ \<Rightarrow> Inl PGRST116)"

text \<open>\<open>from(t).update(upd).eq(c, v)\<close>, awaited without \<open>.select()\<close>.\<close>

definition pg_update :: "string \<Rightarrow> row \<Rightarrow> string \<Rightarrow> jsval \<Rightarrow> state \<Rightarrow> state" where
  "pg_update t upd c v s =
     s\<lparr>db := (db s)(t := map (\<lambda>r. if col r c = v then set_cols r upd else r) (db s t)),
       journal := journal s @ [Update t upd c v]\<rparr>"

text \<open>
  \<open>from(t).update(upd).eq(c, v).select().single()\<close>: the updated rows are returned;
  when they are not exactly one the store answers with the error and the statement is
  rolled back.
\<close>

definition pg_update_single ::
  "string \<Rightarrow> row \<Rightarrow> string \<Rightarrow> jsval \<Rightarrow> state \<Rightarrow> (js_error + row) \<times> state" where
  "pg_update_single t upd c v s =
     (case single (map (\<lambda>r. set_cols r upd) (filter (\<lambda>r. col r c = v) (db s t))) of
        Inl e \<Rightarrow> (Inl e, s)
      | Inr r \<Rightarrow> (Inr r, pg_update t upd c v s))"

text \<open>
  \<open>from(t).select(...).eq(c, v).single()\<close>; \<open>proj\<close> is the projection that the
  \<open>select\<close> asks for: all columns for \<open>'*'\<close>, or the named ones. The embedded
  resources of a \<open>select\<close> (the joined user, vehicle and responder) are left out of
  the model.
\<close>

definition project :: "string list \<Rightarrow> row \<Rightarrow> row" where
  "project cols r = map (\<lambda>k. (k, col r k)) cols"

definition pg_select_single ::
  "string \<Rightarrow> (row \<Rightarrow> row) \<Rightarrow> string \<Rightarrow> jsval \<Rightarrow> state \<Rightarrow> js_error + row" where
  "pg_select_single t proj c v s = single (map proj (filter (\<lambda>r. col r c = v) (db s t)))"

text \<open>
  Modelled from the spec: the schema of the tables is not part of the repository. The
  spec has the \<open>id\<close> "assigned by the store on creation" (here the next value of the
  store's sequence) and a created incident with "assignment fields null": a column that
  the insert does not supply stays unset, that is \<open>NULL\<close>.
  \<open>from(t).insert([r]).select().single()\<close> returns the inserted row.
\<close>

definition pg_insert_single :: "string \<Rightarrow> row \<Rightarrow> state \<Rightarrow> row \<times> state" where
  "pg_insert_single t r s =
     (let r' = (''id'', JNum (real (Suc (seq s)))) # to_json r
      in (r', s\<lparr>db := (db s)(t := db s t @ [r']),
                journal := journal s @ [Insert t r'],
                seq := Suc (seq s)\<rparr>))"

text \<open>\<open>from(t).delete().eq(c, v)\<close>\<close>

definition pg_delete :: "string \<Rightarrow> string \<Rightarrow> jsval \<Rightarrow> state \<Rightarrow> state" where
  "pg_delete t c v s =
     s\<lparr>db := (db s)(t := filter (\<lambda>r. col r c \<noteq> v) (db s t)),
       journal := journal s @ [Delete t c v]\<rparr>"

subsection \<open>Filtered reads\<close>

text \<open>
  A list endpoint builds a query step by step (\<open>.eq\<close>, \<open>.gte\<close>, \<open>.lte\<close>,
  \<open>.order\<close>) and awaits it; the store applies all the conditions, then the order.
  Timestamps are ISO-8601 strings, which sort as text in the order of time. Every
  order that the handlers ask for is descending; rows without the timestamp come last.
\<close>

datatype cond = Eq string jsval | Gte string jsval | Lte string jsval

record pg_query =
  q_from :: string
  q_conds :: "cond list"
  q_order :: "string option"

definition ts_key :: "jsval \<Rightarrow> string" where
  "ts_key v = (case v of JStr x \<Rightarrow> x | _ \<Rightarrow> [])"

definition ts_le :: "jsval \<Rightarrow> jsval \<Rightarrow> bool" where
  "ts_le a b = (case (a, b) of (JStr x, JStr y) \<Rightarrow> x \<le> y | _ \<Rightarrow> False)"

fun sat :: "cond \<Rightarrow> row \<Rightarrow> bool" where
  "sat (Eq c v) r = (col r c = v)"
| "sat (Gte c v) r = ts_le v (col r c)"
| "sat (Lte c v) r = ts_le (col r c) v"

definition pg_from :: "string \<Rightarrow> pg_query" where
  "pg_from t = \<lparr>q_from = t, q_conds = [], q_order = None\<rparr>"

definition q_eq :: "string \<Rightarrow> jsval \<Rightarrow> pg_query \<Rightarrow> pg_query" where
  "q_eq c v q = q\<lparr>q_conds := q_conds q @ [Eq c v]\<rparr>"

definition q_gte :: "string \<Rightarrow> jsval \<Rightarrow> pg_query \<Rightarrow> pg_query" where
  "q_gte c v q = q\<lparr>q_conds := q_conds q @ [Gte c v]\<rparr>"

definition q_lte :: "string \<Rightarrow> jsval \<Rightarrow> pg_query \<Rightarrow> pg_query" where
  "q_lte c v q = q\<lparr>q_conds := q_conds q @ [Lte c v]\<rparr>"

definition q_order_desc :: "string \<Rightarrow> pg_query \<Rightarrow> pg_query" where
  "q_order_desc c q = q\<lparr>q_order := Some c\<rparr>"

text \<open>A stable insertion sort, greatest key first.\<close>

fun insert_desc :: "('a \<Rightarrow> string) \<Rightarrow> 'a \<Rightarrow> 'a list \<Rightarrow> 'a list" where
  "insert_desc key x [] = [x]"
| "insert_desc key x (y # ys) =
     (if key y \<le> key x then x # y # ys else y # insert_desc key x ys)"

definition sort_desc :: "('a \<Rightarrow> string) \<Rightarrow> 'a list \<Rightarrow> 'a list" where
  "sort_desc key xs = foldr (insert_desc key) xs []"

definition run :: "pg_query \<Rightarrow> state \<Rightarrow> row list" where
  "run q s =
     (let rows = filter (\<lambda>r. list_all (\<lambda>c. sat c r) (q_conds q)) (db s (q_from q))
      in case q_order q of None \<Rightarrow> rows | Some c \<Rightarrow> sort_desc (\<lambda>r. ts_key (col r c)) rows)"

text \<open>
  \<open>.range(a, b)\<close>: the rows at positions \<open>a\<close> to \<open>b\<close>, both counted from 0. The
  bounds arrive as the handler computed them (\<open>None\<close> is NaN); the store refuses a
  range that it cannot read.
\<close>

definition pg_range :: "int option \<Rightarrow> int option \<Rightarrow> row list \<Rightarrow> js_error + row list" where
  "pg_range a b rows =
     (case (a, b) of
        (Some i, Some j) \<Rightarrow>
          if 0 \<le> i \<and> i \<le> j then Inr (take (nat (j - i + 1)) (drop (nat i) rows))
          else Inl (Error ''Requested range not satisfiable'')
      | _ \<Rightarrow> Inl (Error ''Requested range not satisfiable''))"

text \<open>\<open>.limit(n)\<close>: the first \<open>n\<close> rows; the store refuses what is not a count.\<close>

definition pg_limit :: "jsval \<Rightarrow> row list \<Rightarrow> js_error + row list" where
  "pg_limit n rows =
     (case n of
        JNum x \<Rightarrow> if 0 \<le> x \<and> x \<in> \<int> then Inr (take (nat \<lfloor>x\<rfloor>) rows)
                  else Inl (Error ''invalid limit'')
      | _ \<Rightarrow> Inl (Error ''invalid limit''))"

section \<open>Requests and responses\<close>

text \<open>
  \<open>u_id\<close> and \<open>u_role\<close> are \<open>req.user.id\<close> and \<open>req.user.role\<close>, which the
  authentication middleware takes from the bearer token; \<open>params_id\<close> is
  \<open>req.params.id\<close>; \<open>now\<close> is what \<open>new Date().toISOString()\<close> returns while the
  request is handled.
\<close>

record request =
  u_id :: jsval
  u_role :: jsval
  params_id :: jsval
  body :: "(string \<times> jsval) list"
  query :: "(string \<times> jsval) list"
  now :: string

record response =
  code :: nat
  payload :: jsval

definition message :: "string \<Rightarrow> jsval" where
  "message m = JObj [(''message'', JStr m)]"

definition reply :: "nat \<Rightarrow> jsval \<Rightarrow> response" where
  "reply c p = \<lparr>code = c, payload = p\<rparr>"

text \<open>
  The \<open>catch\<close> block of the alert and SOS handlers:
  \<open>res.status(500).json({ message: error.message || 'Server error' })\<close>.
\<close>

fun caught :: "js_error \<Rightarrow> response" where
  "caught (Error m) = reply 500 (message (if m \<noteq> [] then m else ''Server error''))"

text \<open>The crash-event handlers answer \<open>{ message: error.message }\<close>.\<close>

fun caught_plain :: "js_error \<Rightarrow> response" where
  "caught_plain (Error m) = reply 500 (message m)"

section \<open>socketInstance: the notifier reference\<close>

text \<open>\<open>let io;\<close> at module load: the state of the process before any call.\<close>

definition boot :: "(string \<Rightarrow> row list) \<Rightarrow> state" where
  "boot d = \<lparr>db = d, journal = [], seq = 0, io = JUndefined, emitted = []\<rparr>"

definition setIO :: "jsval \<Rightarrow> state \<Rightarrow> state" where
  "setIO newIO s = s\<lparr>io := newIO\<rparr>"

definition getIO :: "state \<Rightarrow> js_error + jsval" where
  "getIO s = (if \<not> truthy (io s) then Inl (Error ''Socket.io not initialized'')
              else Inr (io s))"

text \<open>
  \<open>i.emit(ev, data)\<close>: the broadcast is recorded in \<open>emitted\<close>. Only a host object
  has the method.
\<close>

definition emit :: "jsval \<Rightarrow> string \<Rightarrow> jsval \<Rightarrow> state \<Rightarrow> js_error + state" where
  "emit i ev data s =
     (case i of
        JHost n \<Rightarrow> Inr (s\<lparr>emitted := emitted s @ [(ev, data)]\<rparr>)
      | _ \<Rightarrow> Inl (Error ''io.emit is not a function''))"

text \<open>\<open>const io = getIO(); io.emit(ev, data);\<close>\<close>

definition broadcast :: "string \<Rightarrow> jsval \<Rightarrow> state \<Rightarrow> js_error + state" where
  "broadcast ev data s =
     (case getIO s of Inl e \<Rightarrow> Inl e | Inr i \<Rightarrow> emit i ev data s)"

section \<open>Alerts: status changes\<close>

definition validStatuses :: "string list" where
  "validStatuses = [''pending'', ''responding'', ''resolved'', ''cancelled'']"

text \<open>
  \<open>router.patch('/:id/status')\<close>. A thrown error leaves the \<open>try\<close> block at once, so
  the store keeps the writes made before it.
\<close>

definition sync_vehicle :: "jsval \<Rightarrow> row \<Rightarrow> state \<Rightarrow> state" where
  "sync_vehicle status data s =
     (let s1 = (if status = JStr ''responding'' \<and> truthy (col data ''assigned_vehicle_id'')
                then pg_update ''vehicles'' [(''status'', JStr ''responding'')]
                       ''id'' (col data ''assigned_vehicle_id'') s
                else s)
      in (if status = JStr ''resolved'' \<and> truthy (col data ''assigned_vehicle_id'')
          then pg_update ''vehicles'' [(''status'', JStr ''available'')]
                 ''id'' (col data ''assigned_vehicle_id'') s1
          else s1))"

definition alerts_patch_status :: "request \<Rightarrow> state \<Rightarrow> response \<times> state" where
  "alerts_patch_status rq s =
     (let status = get (body rq) ''status'' in
      if \<not> js_includes validStatuses status then (reply 400 (message ''Invalid status''), s)
      else if \<not> js_includes [''admin'', ''dispatcher'', ''rescuer''] (u_role rq)
      then (reply 403 (message ''Access denied''), s)
      else
        let updateData = [(''status'', status), (''updated_at'', JStr (now rq))] in
        case pg_update_single ''alerts'' updateData ''id'' (params_id rq) s of
          (Inl e, s1) \<Rightarrow> (caught e, s1)
        | (Inr data, s1) \<Rightarrow>
            let s2 = sync_vehicle status data s1 in
            (case broadcast ''alert:status_updated'' (JObj data) s2 of
               Inl e \<Rightarrow> (caught e, s2)
             | Inr s3 \<Rightarrow> (reply 200 (JObj data), s3)))"

section \<open>Alerts: assignment\<close>

text \<open>
  \<open>router.patch('/:id/assign')\<close>. The result of the first vehicle update is not
  looked at, and an error of the second one is only logged.
\<close>

definition alerts_patch_assign :: "request \<Rightarrow> state \<Rightarrow> response \<times> state" where
  "alerts_patch_assign rq s =
     (let vehicle_id = get (body rq) ''vehicle_id'';
          responder_id = get (body rq) ''responder_id'' in
      if \<not> js_includes [''admin'', ''dispatcher''] (u_role rq)
      then (reply 403 (message ''Access denied''), s)
      else
        case pg_select_single ''alerts'' (project [''assigned_vehicle_id''])
               ''id'' (params_id rq) s of
          Inl e \<Rightarrow> (caught e, s)
        | Inr currentAlert \<Rightarrow>
            let updateData = [(''assigned_vehicle_id'', js_or vehicle_id JNull),
                              (''assigned_responder_id'', js_or responder_id JNull),
                              (''updated_at'', JStr (now rq))] in
            (case pg_update_single ''alerts'' updateData ''id'' (params_id rq) s of
              (Inl e, s1) \<Rightarrow> (caught e, s1)
            | (Inr updatedAlert, s1) \<Rightarrow>
                let s2 = (if truthy (col currentAlert ''assigned_vehicle_id'')
                             \<and> \<not> strict_eq (col currentAlert ''assigned_vehicle_id'') vehicle_id
                          then pg_update ''vehicles'' [(''status'', JStr ''available'')]
                                 ''id'' (col currentAlert ''assigned_vehicle_id'') s1
                          else s1);
                    s3 = (if truthy vehicle_id
                          then pg_update ''vehicles'' [(''status'', JStr ''assigned'')]
                                 ''id'' vehicle_id s2
                          else s2)
                in (case broadcast ''alert:assigned'' (JObj updatedAlert) s3 of
                      Inl e \<Rightarrow> (caught e, s3)
                    | Inr s4 \<Rightarrow> (reply 200 (JObj updatedAlert), s4))))"

section \<open>Alerts: creation, full update, deletion\<close>

definition validAlertTypes :: "string list" where
  "validAlertTypes =
     [''medical'', ''fire'', ''accident'', ''crime'', ''natural_disaster'', ''other'']"

definition validSeverities :: "string list" where
  "validSeverities = [''low'', ''medium'', ''high'', ''critical'']"

text \<open>
  \<open>router.post('/')\<close> of the alerts. \<open>parseFloat\<close> is JavaScript's built-in function;
  the handler passes its result on to the store unread, so it is a parameter here.
\<close>

definition alerts_post :: "(jsval \<Rightarrow> jsval) \<Rightarrow> request \<Rightarrow> state \<Rightarrow> response \<times> state" where
  "alerts_post parseFloat rq s =
     (let alert_type = get (body rq) ''alert_type'';
          severity = get (body rq) ''severity'';
          title = get (body rq) ''title'';
          description = get (body rq) ''description'';
          location = get (body rq) ''location'';
          latitude = get (body rq) ''latitude'';
          longitude = get (body rq) ''longitude'';
          image_url = get (body rq) ''image_url'' in
      if \<not> truthy alert_type \<or> \<not> truthy severity \<or> \<not> truthy title \<or> \<not> truthy location
      then (reply 400 (message ''Missing required fields''), s)
      else if \<not> js_includes validAlertTypes alert_type
      then (reply 400 (message ''Invalid alert type''), s)
      else if \<not> js_includes validSeverities severity
      then (reply 400 (message ''Invalid severity level''), s)
      else
        (case trim title of Inl e \<Rightarrow> (caught e, s) | Inr title' \<Rightarrow>
        (case opt_trim description of Inl e \<Rightarrow> (caught e, s) | Inr description' \<Rightarrow>
        (case trim location of Inl e \<Rightarrow> (caught e, s) | Inr location' \<Rightarrow>
          (let alertData =
                [(''user_id'', u_id rq),
                 (''alert_type'', alert_type),
                 (''severity'', severity),
                 (''title'', title'),
                 (''description'', js_or description' JNull),
                 (''location'', location'),
                 (''latitude'', if truthy latitude then parseFloat latitude else JNull),
                 (''longitude'', if truthy longitude then parseFloat longitude else JNull),
                 (''image_url'', js_or image_url JNull),
                 (''status'', JStr ''pending'')];
               (data, s1) = pg_insert_single ''alerts'' alertData s
           in (case broadcast ''alert:new'' (JObj data) s1 of
                 Inl e \<Rightarrow> (caught e, s1)
               | Inr s2 \<Rightarrow> (reply 201 (JObj data), s2)))))))"

text \<open>
  \<open>router.put('/:id')\<close> of the alerts: \<open>{ ...req.body, updated_at }\<close> with the
  \<open>undefined\<close> fields removed. After \<open>.single()\<close> there is either an error or a row, so
  the handler's \<open>if (!data)\<close> answer 404 has no case of its own here.
\<close>

definition alerts_put :: "request \<Rightarrow> state \<Rightarrow> response \<times> state" where
  "alerts_put rq s =
     (if \<not> js_includes [''admin'', ''dispatcher''] (u_role rq)
      then (reply 403 (message ''Access denied''), s)
      else
        let updateData = filter (\<lambda>(k, v). v \<noteq> JUndefined)
                           (AList.update ''updated_at'' (JStr (now rq)) (body rq)) in
        case pg_update_single ''alerts'' updateData ''id'' (params_id rq) s of
          (Inl e, s1) \<Rightarrow> (caught e, s1)
        | (Inr data, s1) \<Rightarrow>
            (case broadcast ''alert:updated'' (JObj data) s1 of
               Inl e \<Rightarrow> (caught e, s1)
             | Inr s2 \<Rightarrow> (reply 200 (JObj data), s2)))"

text \<open>\<open>router.delete('/:id')\<close> of the alerts.\<close>

definition alerts_delete :: "request \<Rightarrow> state \<Rightarrow> response \<times> state" where
  "alerts_delete rq s =
     (if u_role rq \<noteq> JStr ''admin''
      then (reply 403 (message ''Access denied. Admin only.''), s)
      else
        let s1 = pg_delete ''alerts'' ''id'' (params_id rq) s in
        case broadcast ''alert:deleted'' (JObj [(''id'', params_id rq)]) s1 of
          Inl e \<Rightarrow> (caught e, s1)
        | Inr s2 \<Rightarrow> (reply 200 (message ''Alert deleted successfully''), s2))"

section \<open>Alerts: reading\<close>

text \<open>\<open>router.get('/')\<close> of the alerts.\<close>

definition alerts_get :: "request \<Rightarrow> state \<Rightarrow> response \<times> state" where
  "alerts_get rq s =
     (let status = get (query rq) ''status'';
          alert_type = get (query rq) ''alert_type'';
          user_id = get (query rq) ''user_id'';
          q0 = q_order_desc ''reported_at'' (pg_from ''alerts'');
          q1 = (if truthy status then q_eq ''status'' status q0 else q0);
          q2 = (if truthy alert_type then q_eq ''alert_type'' alert_type q1 else q1);
          q3 = (if u_role rq = JStr ''user'' then q_eq ''user_id'' (u_id rq) q2
                else if truthy user_id then q_eq ''user_id'' user_id q2
                else q2)
      in (reply 200 (JArr (map JObj (run q3 s))), s))"

text \<open>
  \<open>router.get('/:id')\<close> of the alerts. As in the full update, \<open>.single()\<close> gives an
  error or a row, so the answer 404 behind \<open>if (!data)\<close> has no case of its own.
\<close>

definition alerts_get_id :: "request \<Rightarrow> state \<Rightarrow> response \<times> state" where
  "alerts_get_id rq s =
     (case pg_select_single ''alerts'' (\<lambda>r. r) ''id'' (params_id rq) s of
        Inl e \<Rightarrow> (caught e, s)
      | Inr data \<Rightarrow>
          if u_role rq = JStr ''user'' \<and> \<not> strict_eq (col data ''user_id'') (u_id rq)
          then (reply 403 (message ''Access denied''), s)
          else (reply 200 (JObj data), s))"

section \<open>Crash events\<close>

text \<open>\<open>router.post('/')\<close> of the crash events.\<close>

definition crash_post :: "request \<Rightarrow> state \<Rightarrow> response \<times> state" where
  "crash_post rq s =
     (let latitude = get (body rq) ''latitude'';
          longitude = get (body rq) ''longitude'';
          impact_force = get (body rq) ''impact_force'';
          device_battery = get (body rq) ''device_battery'';
          network_type = get (body rq) ''network_type'' in
      if \<not> truthy latitude \<or> \<not> truthy longitude
      then (reply 400 (message ''Latitude and longitude are required''), s)
      else
        let crashEvent =
              [(''user_id'', u_id rq),
               (''event_type'', JStr ''AUTO_CRASH''),
               (''latitude'', latitude),
               (''longitude'', longitude),
               (''impact_force'', js_or impact_force JNull),
               (''device_battery'', js_or device_battery JNull),
               (''network_type'', js_or network_type JNull),
               (''status'', JStr ''pending''),
               (''triggered_at'', JStr (now rq))];
            (data, s1) = pg_insert_single ''crash_events'' crashEvent s
        in (reply 201 (JObj [(''message'', JStr ''Crash event recorded''),
                             (''event'', JObj data)]), s1))"

text \<open>
  \<open>const { limit = 20 } = req.query\<close>: the default stands in for \<open>undefined\<close> only.
  \<open>parseInt\<close> is JavaScript's built-in function, a parameter of the handlers that
  call it; \<open>None\<close> is NaN, which \<open>JSON.stringify\<close> writes as \<open>null\<close>.
\<close>

definition dflt :: "jsval \<Rightarrow> jsval \<Rightarrow> jsval" where
  "dflt v d = (if v = JUndefined then d else v)"

definition js_plus :: "int option \<Rightarrow> int option \<Rightarrow> int option" where
  "js_plus a b = (case (a, b) of (Some i, Some j) \<Rightarrow> Some (i + j) | _ \<Rightarrow> None)"

definition js_num :: "int option \<Rightarrow> jsval" where
  "js_num a = (case a of Some i \<Rightarrow> JNum (real_of_int i) | None \<Rightarrow> JNull)"

text \<open>\<open>router.get('/')\<close> of the crash events.\<close>

definition crash_get :: "(jsval \<Rightarrow> int option) \<Rightarrow> request \<Rightarrow> state \<Rightarrow> response \<times> state" where
  "crash_get parseInt rq s =
     (let status = get (query rq) ''status'';
          from = get (query rq) ''from'';
          to = get (query rq) ''to'';
          limit = dflt (get (query rq) ''limit'') (JNum 20);
          offset = dflt (get (query rq) ''offset'') (JNum 0);
          q0 = q_order_desc ''triggered_at''
                 (q_eq ''event_type'' (JStr ''AUTO_CRASH'') (pg_from ''crash_events''));
          q1 = (if truthy status then q_eq ''status'' status q0 else q0);
          q2 = (if truthy from then q_gte ''triggered_at'' from q1 else q1);
          q3 = (if truthy to then q_lte ''triggered_at'' to q2 else q2);
          q4 = (if u_role rq = JStr ''user'' then q_eq ''user_id'' (u_id rq) q3 else q3);
          parsedLimit = parseInt limit;
          parsedOffset = parseInt offset
      in case pg_range parsedOffset
                (js_plus (js_plus parsedOffset parsedLimit) (Some (- 1))) (run q4 s) of
           Inl e \<Rightarrow> (caught_plain e, s)
         | Inr data \<Rightarrow>
             (reply 200
                (JObj [(''data'', JArr (map JObj data)),
                       (''pagination'',
                          JObj [(''total'', JNum (real (length (run q4 s)))),
                                (''limit'', js_num parsedLimit),
                                (''offset'', js_num parsedOffset),
                                (''returned'', JNum (real (length data)))])]), s))"

text \<open>
  \<open>router.put('/:id')\<close> of the crash events; \<open>router.patch('/:id')\<close> has the same
  body. \<open>delete updates.k\<close> removes the key from the request body.
\<close>

definition crash_put :: "request \<Rightarrow> state \<Rightarrow> response \<times> state" where
  "crash_put rq s =
     (case pg_select_single ''crash_events'' (project [''user_id'']) ''id'' (params_id rq) s of
        Inl e \<Rightarrow> (reply 404 (message ''Crash event not found''), s)
      | Inr existing \<Rightarrow>
          if u_role rq = JStr ''user'' \<and> \<not> strict_eq (col existing ''user_id'') (u_id rq)
          then (reply 403 (message ''You do not have permission to update this event''), s)
          else
            let updates =
                  AList.delete ''triggered_at'' (AList.delete ''updated_at''
                    (AList.delete ''created_at'' (AList.delete ''event_type''
                      (AList.delete ''user_id'' (AList.delete ''id'' (body rq)))))) in
            (case pg_update_single ''crash_events'' updates ''id'' (params_id rq) s of
               (Inl e, s1) \<Rightarrow> (caught_plain e, s1)
             | (Inr data, s1) \<Rightarrow>
                 (reply 200 (JObj [(''message'', JStr ''Crash event updated''),
                                   (''event'', JObj data)]), s1)))"

definition crash_patch :: "request \<Rightarrow> state \<Rightarrow> response \<times> state" where
  "crash_patch rq s = crash_put rq s"

section \<open>SOS requests\<close>

text \<open>
  \<open>x < c\<close> and \<open>x > c\<close> stand behind \<open>typeof x !== 'number' ||\<close>, so they are
  only evaluated on numbers.
\<close>

definition num_lt :: "jsval \<Rightarrow> real \<Rightarrow> bool" where
  "num_lt v c = (case v of JNum x \<Rightarrow> x < c | _ \<Rightarrow> False)"

definition num_gt :: "jsval \<Rightarrow> real \<Rightarrow> bool" where
  "num_gt v c = (case v of JNum x \<Rightarrow> c < x | _ \<Rightarrow> False)"

text \<open>\<open>router.post('/')\<close> of the SOS requests.\<close>

definition sos_post :: "request \<Rightarrow> state \<Rightarrow> response \<times> state" where
  "sos_post rq s =
     (let type = get (body rq) ''type'';
          description = get (body rq) ''description'';
          latitude = get (body rq) ''latitude'';
          longitude = get (body rq) ''longitude'' in
      if \<not> truthy type \<or> latitude = JUndefined \<or> longitude = JUndefined
      then (reply 400 (message ''Missing required fields (type, latitude, longitude)''), s)
      else if typeof latitude \<noteq> ''number'' \<or> num_lt latitude (- 90) \<or> num_gt latitude 90
              \<or> typeof longitude \<noteq> ''number'' \<or> num_lt longitude (- 180)
              \<or> num_gt longitude 180
      then (reply 400 (message ''Invalid latitude or longitude values''), s)
      else
        (case opt_trim description of
           Inl e \<Rightarrow> (caught e, s)
         | Inr description' \<Rightarrow>
             (let sosData =
                    [(''user_id'', u_id rq),
                     (''type'', type),
                     (''description'', js_or description' JNull),
                     (''latitude'', latitude),
                     (''longitude'', longitude),
                     (''status'', JStr ''pending''),
                     (''triggered_at'', JStr (now rq))];
                  (data, s1) = pg_insert_single ''sos_requests'' sosData s
              in (reply 201 (JObj [(''message'', JStr ''SOS sent successfully''),
                                   (''sos'', JObj data)]), s1))))"

text \<open>\<open>router.get('/')\<close> of the SOS requests.\<close>

definition sos_get :: "request \<Rightarrow> state \<Rightarrow> response \<times> state" where
  "sos_get rq s =
     (let per_page = dflt (get (query rq) ''per_page'') (JNum 15);
          q0 = q_order_desc ''triggered_at'' (pg_from ''sos_requests'');
          q1 = (if u_role rq = JStr ''user'' then q_eq ''user_id'' (u_id rq) q0 else q0)
      in case pg_limit per_page (run q1 s) of
           Inl e \<Rightarrow> (caught e, s)
         | Inr data \<Rightarrow> (reply 200 (JArr (map JObj data)), s))"

section \<open>The combined incident list\<close>

text \<open>
  \<open>buildBaseQuery\<close> is a closure of the handler: it reads \<open>status\<close>, \<open>from\<close>,
  \<open>to\<close>, \<open>userRole\<close> and \<open>userId\<close> from the request.
\<close>

definition buildBaseQuery :: "request \<Rightarrow> string \<Rightarrow> string \<Rightarrow> pg_query" where
  "buildBaseQuery rq table timestampField =
     (let status = get (query rq) ''status'';
          from = get (query rq) ''from'';
          to = get (query rq) ''to'';
          q0 = pg_from table;
          q1 = (if truthy status then q_eq ''status'' status q0 else q0);
          q2 = (if truthy from then q_gte timestampField from q1 else q1);
          q3 = (if truthy to then q_lte timestampField to q2 else q2)
      in if u_role rq = JStr ''user'' then q_eq ''user_id'' (u_id rq) q3 else q3)"

text \<open>The object that the handler makes of a row: \<open>item => ({ source, id, ... })\<close>.\<close>

definition combined_item :: "string \<Rightarrow> string \<Rightarrow> row \<Rightarrow> (string \<times> jsval) list" where
  "combined_item source timestampField item =
     [(''source'', JStr source),
      (''id'', col item ''id''),
      (''userId'', col item ''user_id''),
      (''status'', col item ''status''),
      (''timestamp'', col item timestampField),
      (''latitude'', col item ''latitude''),
      (''longitude'', col item ''longitude''),
      (''data'', JObj item)]"

text \<open>
  \<open>xs.slice(a, b)\<close>: NaN counts as 0, a negative index counts from the end, and both
  ends are clamped to the array.
\<close>

definition js_slice :: "int option \<Rightarrow> int option \<Rightarrow> 'a list \<Rightarrow> 'a list" where
  "js_slice a b xs =
     (let n = int (length xs);
          rel = (\<lambda>k. case k of None \<Rightarrow> 0
                      | Some i \<Rightarrow> if i < 0 then max (n + i) 0 else min i n);
          start = rel a;
          fin = rel b
      in take (nat (fin - start)) (drop (nat start) xs))"

text \<open>
  \<open>router.get('/')\<close> of the combined list. The comparator
  \<open>new Date(b.timestamp) - new Date(a.timestamp)\<close> sorts the later timestamp first.
\<close>

definition incidents_get :: "(jsval \<Rightarrow> int option) \<Rightarrow> request \<Rightarrow> state \<Rightarrow> response \<times> state" where
  "incidents_get parseInt rq s =
     (let type = dflt (get (query rq) ''type'') (JStr ''all'');
          limit = dflt (get (query rq) ''limit'') (JNum 20);
          offset = dflt (get (query rq) ''offset'') (JNum 0);
          parsedLimit = parseInt limit;
          parsedOffset = parseInt offset;
          alerts = (if type = JStr ''alert'' \<or> type = JStr ''all''
                    then map (combined_item ''alert'' ''reported_at'')
                           (run (q_order_desc ''reported_at''
                                  (buildBaseQuery rq ''alerts'' ''reported_at'')) s)
                    else []);
          crashes = (if type = JStr ''crash'' \<or> type = JStr ''all''
                     then map (combined_item ''crash'' ''triggered_at'')
                            (run (q_order_desc ''triggered_at''
                                   (q_eq ''event_type'' (JStr ''AUTO_CRASH'')
                                     (buildBaseQuery rq ''crash_events'' ''triggered_at''))) s)
                     else []);
          combined = sort_desc (\<lambda>a. ts_key (get a ''timestamp'')) (alerts @ crashes);
          total = length combined;
          paginated = js_slice parsedOffset (js_plus parsedOffset parsedLimit) combined
      in (reply 200
            (JObj [(''data'', JArr (map JObj paginated)),
                   (''pagination'',
                      JObj [(''total'', JNum (real total)),
                            (''limit'', js_num parsedLimit),
                            (''offset'', js_num parsedOffset),
                            (''returned'', JNum (real (length paginated)))])]), s))"

section \<open>The mutating routes of the alerts\<close>

text \<open>
  The router registers one handler for each lifecycle mutation of an alert; each of
  them broadcasts after its store call.
\<close>

datatype alerts_route = POST_alert | PUT_alert | PATCH_status | PATCH_assign | DELETE_alert

fun alerts_mutation ::
  "(jsval \<Rightarrow> jsval) \<Rightarrow> alerts_route \<Rightarrow> request \<Rightarrow> state \<Rightarrow> response \<times> state" where
  "alerts_mutation parseFloat POST_alert = alerts_post parseFloat"
| "alerts_mutation parseFloat PUT_alert = alerts_put"
| "alerts_mutation parseFloat PATCH_status = alerts_patch_status"
| "alerts_mutation parseFloat PATCH_assign = alerts_patch_assign"
| "alerts_mutation parseFloat DELETE_alert = alerts_delete"

section \<open>A sample store and sample requests\<close>

text \<open>
  Three alerts (the first resolved and holding vehicle 7, the second unassigned, the
  third holding the vehicle whose id is 0) and three vehicles. \<open>demo\<close> is the process
  after start-up, with the Socket.io server set.
\<close>

definition demo_db :: "string \<Rightarrow> row list" where
  "demo_db = (\<lambda>t. [])
     (''alerts'' :=
        [[(''id'', JNum 1), (''user_id'', JNum 10), (''status'', JStr ''resolved''),
          (''assigned_vehicle_id'', JNum 7)],
         [(''id'', JNum 2), (''user_id'', JNum 11), (''status'', JStr ''pending'')],
         [(''id'', JNum 3), (''user_id'', JNum 10), (''status'', JStr ''pending''),
          (''assigned_vehicle_id'', JNum 0)]],
      ''vehicles'' :=
        [[(''id'', JNum 7), (''status'', JStr ''assigned'')],
         [(''id'', JNum 8), (''status'', JStr ''available'')],
         [(''id'', JNum 0), (''status'', JStr ''assigned'')]])"

definition demo :: state where
  "demo = setIO (JHost 1) (boot demo_db)"

definition staff_rq :: "string \<Rightarrow> real \<Rightarrow> (string \<times> jsval) list \<Rightarrow> request" where
  "staff_rq role i b =
     \<lparr>u_id = JNum 1, u_role = JStr role, params_id = JNum i, body = b, query = [],
      now = ''2026-01-01T00:00:00.000Z''\<rparr>"

text \<open>A request of the user with the given id, who has the role \<open>user\<close>.\<close>

definition user_rq :: "real \<Rightarrow> real \<Rightarrow> (string \<times> jsval) list \<Rightarrow> request" where
  "user_rq uid i b =
     \<lparr>u_id = JNum uid, u_role = JStr ''user'', params_id = JNum i, body = b, query = [],
      now = ''2026-01-01T00:00:00.000Z''\<rparr>"

text \<open>
  The sample process after an administrator has set vehicle 0 to \<open>available\<close> through
  the vehicle route, which is \<open>from('vehicles').update(req.body).eq('id', ...)\<close>.
\<close>

definition demo_free :: state where
  "demo_free = pg_update ''vehicles'' [(''status'', JStr ''available'')] ''id'' (JNum 0) demo"

section \<open>Facts about the store and the notifier\<close>

lemmas demo_defs = demo_def demo_free_def demo_db_def setIO_def boot_def staff_rq_def
  user_rq_def

lemmas store_defs = pg_update_single_def pg_update_def pg_select_single_def project_def
  set_cols_def to_json_def col_def get_def single_def

lemmas io_defs = broadcast_def getIO_def emit_def

lemma col_update: "col (AList.update k v r) k' = (if k' = k then v else col r k')"
  by (simp add: col_def update_conv')

lemma col_fold_update:
  "col (fold (\<lambda>(k, v). AList.update k v) us r) k =
     (case map_of (rev us) k of None \<Rightarrow> col r k | Some v \<Rightarrow> v)"
proof (induction us arbitrary: r)
  case Nil
  then show ?case by simp
next
  case (Cons u us)
  obtain k' v' where u: "u = (k', v')" by (cases u)
  show ?case
    by (simp add: Cons.IH u col_update map_add_def split: option.splits)
qed

lemma col_set_cols:
  "col (set_cols r upd) k =
     (case map_of (rev (to_json upd)) k of None \<Rightarrow> col r k | Some v \<Rightarrow> v)"
  by (simp add: set_cols_def col_fold_update)

lemma col_set_cols_other:
  assumes "k \<notin> fst ` set upd"
  shows "col (set_cols r upd) k = col r k"
proof -
  from assms have "k \<notin> fst ` set (rev (to_json upd))"
    by (auto simp: to_json_def)
  then have "map_of (rev (to_json upd)) k = None"
    by (simp add: map_of_eq_None_iff)
  then show ?thesis by (simp add: col_set_cols)
qed

lemma single_simps [simp]:
  "single [] = Inl PGRST116" "single [r] = Inr r" "single (r # r' # rs) = Inl PGRST116"
  by (simp_all add: single_def)

lemma filter_map_keep:
  assumes "\<And>r. P r \<Longrightarrow> P (f r)"
  shows "filter P (map (\<lambda>r. if P r then f r else r) xs) = map f (filter P xs)"
  using assms by (induction xs) auto

lemma db_pg_update:
  "db (pg_update t upd c v s) t' =
     (if t' = t then map (\<lambda>r. if col r c = v then set_cols r upd else r) (db s t)
      else db s t')"
  by (simp add: pg_update_def)

lemma io_pg_update [simp]: "io (pg_update t upd c v s) = io s"
  by (simp add: pg_update_def)

lemma journal_pg_update [simp]:
  "journal (pg_update t upd c v s) = journal s @ [Update t upd c v]"
  by (simp add: pg_update_def)

lemma io_sync_vehicle [simp]: "io (sync_vehicle st data s) = io s"
  by (simp add: sync_vehicle_def Let_def)

lemma db_sync_vehicle_other:
  "t \<noteq> ''vehicles'' \<Longrightarrow> db (sync_vehicle st data s) t = db s t"
  by (simp add: sync_vehicle_def Let_def db_pg_update)

lemma broadcast_host:
  "io s = JHost n \<Longrightarrow> broadcast ev d s = Inr (s\<lparr>emitted := emitted s @ [(ev, d)]\<rparr>)"
  by (simp add: broadcast_def getIO_def emit_def)

lemma pg_update_single_hit:
  assumes "filter (\<lambda>r. col r c = v) (db s t) = [r]"
  shows "pg_update_single t upd c v s = (Inr (set_cols r upd), pg_update t upd c v s)"
  using assms by (simp add: pg_update_single_def)

lemma pg_update_single_miss:
  assumes "filter (\<lambda>r. col r c = v) (db s t) = []"
  shows "pg_update_single t upd c v s = (Inl PGRST116, s)"
  using assms by (simp add: pg_update_single_def)

lemma js_includes_JStr [simp]: "js_includes xs (JStr st) = (st \<in> set xs)"
  by (simp add: js_includes_def)

lemma code_caught [simp]: "code (caught e) = 500"
  by (cases e) (simp add: reply_def)

lemma code_reply [simp]: "code (reply c p) = c"
  by (simp add: reply_def)

lemma reply_eq [simp]: "(reply c p = reply c' p') = (c = c' \<and> p = p')"
  by (simp add: reply_def)

lemma message_eq [simp]: "(message a = message b) = (a = b)"
  by (simp add: message_def)

lemma db_broadcast: "broadcast ev d s = Inr s' \<Longrightarrow> db s' = db s"
  by (auto simp: broadcast_def emit_def split: sum.splits jsval.splits)

lemma journal_broadcast: "broadcast ev d s = Inr s' \<Longrightarrow> journal s' = journal s"
  by (auto simp: broadcast_def emit_def split: sum.splits jsval.splits)

lemma io_broadcast: "broadcast ev d s = Inr s' \<Longrightarrow> io s' = io s"
  by (auto simp: broadcast_def emit_def split: sum.splits jsval.splits)

lemma broadcast_error:
  "truthy (io s) \<Longrightarrow> broadcast ev d s = Inl e \<Longrightarrow> e = Error ''io.emit is not a function''"
  by (auto simp: broadcast_def emit_def getIO_def split: sum.splits jsval.splits)

lemma single_map_miss:
  "\<forall>r. xs \<noteq> [r] \<Longrightarrow> single (map f xs) = Inl PGRST116"
  by (cases xs; cases "tl xs") auto

lemma db_sync_vehicle:
  "db (sync_vehicle st data s) t =
     (if t = ''vehicles'' \<and> st = JStr ''responding''
         \<and> truthy (col data ''assigned_vehicle_id'')
      then map (\<lambda>r. if col r ''id'' = col data ''assigned_vehicle_id''
                     then set_cols r [(''status'', JStr ''responding'')] else r)
             (db s ''vehicles'')
      else if t = ''vehicles'' \<and> st = JStr ''resolved''
              \<and> truthy (col data ''assigned_vehicle_id'')
      then map (\<lambda>r. if col r ''id'' = col data ''assigned_vehicle_id''
                     then set_cols r [(''status'', JStr ''available'')] else r)
             (db s ''vehicles'')
      else db s t)"
  by (simp add: sync_vehicle_def Let_def db_pg_update)

lemma io_pg_delete [simp]: "io (pg_delete t c v s) = io s"
  by (simp add: pg_delete_def)

lemma io_pg_insert_single: "pg_insert_single t r s = (r', s') \<Longrightarrow> io s' = io s"
  by (auto simp: pg_insert_single_def Let_def)

lemma pg_update_single_cases:
  "pg_update_single t upd c v s = (x, s') \<Longrightarrow>
     io s' = io s \<and> (\<forall>e. x = Inl e \<longrightarrow> e = PGRST116)"
  by (auto simp: pg_update_single_def single_def split: sum.splits list.splits)

lemma pg_select_single_error:
  "pg_select_single t proj c v s = Inl e \<Longrightarrow> e = PGRST116"
  by (auto simp: pg_select_single_def single_def split: list.splits)

lemma trim_error: "trim v = Inl e \<Longrightarrow> e = Error ''trim is not a function''"
  by (auto simp: trim_def split: jsval.splits)

lemma opt_trim_error: "opt_trim v = Inl e \<Longrightarrow> e = Error ''trim is not a function''"
  by (auto simp: opt_trim_def trim_error split: if_splits)

lemma journal_sync_vehicle:
  "journal (sync_vehicle st data s) =
     journal s
     @ (if st = JStr ''responding'' \<and> truthy (col data ''assigned_vehicle_id'')
        then [Update ''vehicles'' [(''status'', JStr ''responding'')] ''id''
                (col data ''assigned_vehicle_id'')] else [])
     @ (if st = JStr ''resolved'' \<and> truthy (col data ''assigned_vehicle_id'')
        then [Update ''vehicles'' [(''status'', JStr ''available'')] ''id''
                (col data ''assigned_vehicle_id'')] else [])"
  by (simp add: sync_vehicle_def Let_def)

lemma ids_after_update:
  "c \<noteq> k \<Longrightarrow>
   map (\<lambda>x. col x c) (map (\<lambda>r. if col r c = v then set_cols r [(k, w)] else r) xs)
     = map (\<lambda>x. col x c) xs"
  by (induction xs) (auto simp: col_set_cols_other)

lemma status_after_update:
  "w \<noteq> JUndefined \<Longrightarrow> c \<noteq> k \<Longrightarrow>
   map (\<lambda>x. col x k)
     (filter (\<lambda>x. col x c = v) (map (\<lambda>r. if col r c = v then set_cols r [(k, w)] else r) xs))
   = map (\<lambda>x. w) (filter (\<lambda>x. col x c = v) xs)"
  by (induction xs) (auto simp: col_set_cols_other col_set_cols to_json_def)

lemma two_updates_first:
  "a \<noteq> b \<Longrightarrow> w \<noteq> JUndefined \<Longrightarrow> c \<noteq> k \<Longrightarrow>
   map (\<lambda>x. col x k)
     (filter (\<lambda>x. col x c = a)
        (map (\<lambda>r. if col r c = b then set_cols r [(k, w')] else r)
           (map (\<lambda>r. if col r c = a then set_cols r [(k, w)] else r) xs)))
   = map (\<lambda>x. w) (filter (\<lambda>x. col x c = a) xs)"
  by (induction xs) (auto simp: col_set_cols_other col_set_cols to_json_def)

lemma two_updates_second:
  "w' \<noteq> JUndefined \<Longrightarrow> c \<noteq> k \<Longrightarrow>
   map (\<lambda>x. col x k)
     (filter (\<lambda>x. col x c = b)
        (map (\<lambda>r. if col r c = b then set_cols r [(k, w')] else r)
           (map (\<lambda>r. if col r c = a then set_cols r [(k, w)] else r) xs)))
   = map (\<lambda>x. w') (filter (\<lambda>x. col x c = b) xs)"
  by (induction xs) (auto simp: col_set_cols_other col_set_cols to_json_def)

lemma col_singleton [simp]: "col [(k, v)] k = v"
  by (simp add: col_def)

lemma select_projected:
  assumes "filter (\<lambda>r. col r c = v) (db s t) = [r]"
  shows "pg_select_single t (project [k]) c v s = Inr [(k, col r k)]"
  using assms by (simp add: pg_select_single_def project_def)

lemma broadcast_tail_state:
  assumes "s1' = s1"
  shows "db (snd (case broadcast ev d s1 of Inl e \<Rightarrow> (caught e, s1')
                                         | Inr s2 \<Rightarrow> (reply c p, s2))) = db s1
   \<and> journal (snd (case broadcast ev d s1 of Inl e \<Rightarrow> (caught e, s1')
                                             | Inr s2 \<Rightarrow> (reply c p, s2))) = journal s1"
  using assms by (cases "broadcast ev d s1") (simp_all add: db_broadcast journal_broadcast)

section \<open>Status changes and the state machine\<close>

text \<open>
  C1, as the claim states it, fails: the resolved alert 1 of the sample store is set
  back to \<open>pending\<close> by an administrator, and the call answers 200.
\<close>

theorem resolved_alert_reopened:
  "map (\<lambda>r. col r ''status'') (db demo ''alerts'')
     = [JStr ''resolved'', JStr ''pending'', JStr ''pending'']
   \<and> code (fst (alerts_patch_status
                  (staff_rq ''admin'' 1 [(''status'', JStr ''pending'')]) demo)) = 200
   \<and> map (\<lambda>r. col r ''status'')
        (db (snd (alerts_patch_status
                    (staff_rq ''admin'' 1 [(''status'', JStr ''pending'')]) demo)) ''alerts'')
     = [JStr ''pending'', JStr ''pending'', JStr ''pending'']"
  by (simp add: alerts_patch_status_def sync_vehicle_def validStatuses_def Let_def
      demo_defs store_defs io_defs reply_def)

text \<open>
  C1, amended: the status handler has no transition table. For every alert that the
  store holds under the requested id, whatever its current status (\<open>resolved\<close> and
  \<open>cancelled\<close> included), every one of the four status values and every role among
  admin, dispatcher and rescuer, the call answers 200 with the updated alert, and the
  alert then has the new status. (The notifier is set, as it is after start-up.)
\<close>

theorem alerts_patch_status_any_transition:
  assumes hit: "filter (\<lambda>r. col r ''id'' = params_id rq) (db s ''alerts'') = [r]"
    and st: "get (body rq) ''status'' = JStr st" "st \<in> set validStatuses"
    and role: "js_includes [''admin'', ''dispatcher'', ''rescuer''] (u_role rq)"
    and io: "io s = JHost n"
  shows "\<exists>r'. fst (alerts_patch_status rq s) = reply 200 (JObj r')
            \<and> filter (\<lambda>r. col r ''id'' = params_id rq)
                 (db (snd (alerts_patch_status rq s)) ''alerts'') = [r']
            \<and> col r' ''status'' = JStr st"
proof -
  let ?upd = "[(''status'', JStr st), (''updated_at'', JStr (now rq))]"
  let ?r' = "set_cols r ?upd"
  let ?s1 = "pg_update ''alerts'' ?upd ''id'' (params_id rq) s"
  let ?s2 = "sync_vehicle (JStr st) ?r' ?s1"
  have io2: "io ?s2 = JHost n" using io by simp
  have run: "alerts_patch_status rq s =
      (reply 200 (JObj ?r'),
       ?s2\<lparr>emitted := emitted ?s2 @ [(''alert:status_updated'', JObj ?r')]\<rparr>)"
    using st role
    by (simp add: alerts_patch_status_def Let_def pg_update_single_hit [OF hit]
        broadcast_host [OF io2])
  have "db ?s2 ''alerts'' = db ?s1 ''alerts''"
    by (rule db_sync_vehicle_other) simp
  also have "\<dots> = map (\<lambda>r. if col r ''id'' = params_id rq then set_cols r ?upd else r)
                      (db s ''alerts'')"
    by (simp add: db_pg_update)
  finally have "filter (\<lambda>r. col r ''id'' = params_id rq) (db ?s2 ''alerts'')
      = map (\<lambda>r. set_cols r ?upd) (filter (\<lambda>r. col r ''id'' = params_id rq) (db s ''alerts''))"
    by (simp add: filter_map_keep col_set_cols_other)
  then have "filter (\<lambda>r. col r ''id'' = params_id rq) (db ?s2 ''alerts'') = [?r']"
    by (simp add: hit)
  moreover have "col ?r' ''status'' = JStr st"
    by (simp add: col_set_cols to_json_def)
  ultimately show ?thesis by (simp add: run)
qed

text \<open>The amended C1 at the resolved alert 1 of the sample store.\<close>

theorem alerts_patch_status_any_transition_witness:
  "filter (\<lambda>r. col r ''id'' = params_id (staff_rq ''admin'' 1 [(''status'', JStr ''pending'')]))
     (db demo ''alerts'')
     = [[(''id'', JNum 1), (''user_id'', JNum 10), (''status'', JStr ''resolved''),
         (''assigned_vehicle_id'', JNum 7)]]
   \<and> get (body (staff_rq ''admin'' 1 [(''status'', JStr ''pending'')])) ''status''
       = JStr ''pending''
   \<and> ''pending'' \<in> set validStatuses
   \<and> js_includes [''admin'', ''dispatcher'', ''rescuer'']
       (u_role (staff_rq ''admin'' 1 [(''status'', JStr ''pending'')]))
   \<and> io demo = JHost 1
   \<and> (\<exists>r'. fst (alerts_patch_status
                   (staff_rq ''admin'' 1 [(''status'', JStr ''pending'')]) demo)
              = reply 200 (JObj r')
          \<and> filter (\<lambda>r. col r ''id''
                          = params_id (staff_rq ''admin'' 1 [(''status'', JStr ''pending'')]))
               (db (snd (alerts_patch_status
                           (staff_rq ''admin'' 1 [(''status'', JStr ''pending'')]) demo))
                  ''alerts'') = [r']
          \<and> col r' ''status'' = JStr ''pending'')"
proof -
  let ?rq = "staff_rq ''admin'' 1 [(''status'', JStr ''pending'')]"
  have h1: "filter (\<lambda>r. col r ''id'' = params_id ?rq) (db demo ''alerts'')
     = [[(''id'', JNum 1), (''user_id'', JNum 10), (''status'', JStr ''resolved''),
         (''assigned_vehicle_id'', JNum 7)]]"
    by (simp add: demo_defs col_def)
  have h2: "get (body ?rq) ''status'' = JStr ''pending''"
    by (simp add: staff_rq_def get_def)
  have h3: "''pending'' \<in> set validStatuses"
    by (simp add: validStatuses_def)
  have h4: "js_includes [''admin'', ''dispatcher'', ''rescuer''] (u_role ?rq)"
    by (simp add: staff_rq_def)
  have h5: "io demo = JHost 1"
    by (simp add: demo_defs)
  from alerts_patch_status_any_transition [OF h1 h2 h3 h4 h5] h1 h2 h3 h4 h5
  show ?thesis by blast
qed

section \<open>An alert that the store does not hold\<close>

lemma alerts_patch_status_absent:
  assumes "filter (\<lambda>r. col r ''id'' = params_id rq) (db s ''alerts'') = []"
    and "js_includes validStatuses (get (body rq) ''status'')"
    and "js_includes [''admin'', ''dispatcher'', ''rescuer''] (u_role rq)"
  shows "alerts_patch_status rq s = (caught PGRST116, s)"
  using assms by (simp add: alerts_patch_status_def Let_def pg_update_single_miss)

lemma alerts_patch_status_never_404: "code (fst (alerts_patch_status rq s)) \<noteq> 404"
  by (simp add: alerts_patch_status_def Let_def split: sum.splits prod.splits)

text \<open>
  C7 says that a status change of an alert that the store does not hold answers 404.
  The handler has no such answer: the error of \<open>.single()\<close> is thrown and the
  \<open>catch\<close> block answers 500. Here an administrator sets the status of alert 99,
  which the sample store does not hold; the store is left as it was.
\<close>

theorem alerts_patch_status_absent_alert_500:
  "filter (\<lambda>r. col r ''id'' = JNum 99) (db demo ''alerts'') = []
   \<and> alerts_patch_status (staff_rq ''admin'' 99 [(''status'', JStr ''resolved'')]) demo
     = (reply 500 (message ''JSON object requested, multiple (or no) rows returned''), demo)"
  by (simp add: alerts_patch_status_def validStatuses_def Let_def demo_defs store_defs
      PGRST116_def)

section \<open>Repeating a status change\<close>

lemma set_cols_status_twice:
  assumes "st \<noteq> JUndefined"
  shows "set_cols (set_cols r [(''status'', st), (''updated_at'', JStr t1)])
             [(''status'', st), (''updated_at'', JStr t2)]
         = set_cols r [(''status'', st), (''updated_at'', JStr t2)]"
proof -
  let ?a = "AList.update ''status'' st r"
  have "map_of (AList.update ''updated_at'' (JStr t1) ?a) ''status'' = Some st"
    by (simp add: update_conv')
  then have "AList.update ''status'' st (AList.update ''updated_at'' (JStr t1) ?a)
      = AList.update ''updated_at'' (JStr t1) ?a"
    by (rule update_triv)
  then show ?thesis using assms by (simp add: set_cols_def to_json_def)
qed

lemma set_cols_one_twice:
  "set_cols (set_cols r [(k, v)]) [(k, v)] = set_cols r [(k, v)]"
  by (simp add: set_cols_def to_json_def)

lemma db_status_hit:
  assumes hit: "filter (\<lambda>r. col r ''id'' = params_id rq) (db s ''alerts'') = [r]"
    and valid: "js_includes validStatuses (get (body rq) ''status'')"
    and role: "js_includes [''admin'', ''dispatcher'', ''rescuer''] (u_role rq)"
  shows "db (snd (alerts_patch_status rq s)) =
         db (sync_vehicle (get (body rq) ''status'')
               (set_cols r [(''status'', get (body rq) ''status''),
                            (''updated_at'', JStr (now rq))])
               (pg_update ''alerts''
                  [(''status'', get (body rq) ''status''), (''updated_at'', JStr (now rq))]
                  ''id'' (params_id rq) s))"
  using valid role
  by (auto simp: alerts_patch_status_def Let_def pg_update_single_hit [OF hit] db_broadcast
      split: sum.splits)

lemma snd_status_miss:
  assumes "(\<forall>r. filter (\<lambda>r. col r ''id'' = params_id rq) (db s ''alerts'') \<noteq> [r])
           \<or> \<not> js_includes validStatuses (get (body rq) ''status'')
           \<or> \<not> js_includes [''admin'', ''dispatcher'', ''rescuer''] (u_role rq)"
  shows "snd (alerts_patch_status rq s) = s"
  using assms
  by (auto simp: alerts_patch_status_def Let_def pg_update_single_def single_map_miss)

lemma status_twice_is_last_call:
  "db (snd (alerts_patch_status (rq\<lparr>now := t2\<rparr>)
              (snd (alerts_patch_status (rq\<lparr>now := t1\<rparr>) s))))
   = db (snd (alerts_patch_status (rq\<lparr>now := t2\<rparr>) s))"
proof (cases "(\<exists>r. filter (\<lambda>r. col r ''id'' = params_id rq) (db s ''alerts'') = [r])
           \<and> js_includes validStatuses (get (body rq) ''status'')
           \<and> js_includes [''admin'', ''dispatcher'', ''rescuer''] (u_role rq)")
  case False
  then have "snd (alerts_patch_status (rq\<lparr>now := t1\<rparr>) s) = s"
    by (intro snd_status_miss) auto
  then show ?thesis by simp
next
  case True
  then obtain r where hit: "filter (\<lambda>r. col r ''id'' = params_id rq) (db s ''alerts'') = [r]"
    and valid: "js_includes validStatuses (get (body rq) ''status'')"
    and role: "js_includes [''admin'', ''dispatcher'', ''rescuer''] (u_role rq)"
    by blast
  let ?st = "get (body rq) ''status''"
  let ?pid = "params_id rq"
  let ?u1 = "[(''status'', ?st), (''updated_at'', JStr t1)]"
  let ?u2 = "[(''status'', ?st), (''updated_at'', JStr t2)]"
  let ?g1 = "\<lambda>r. if col r ''id'' = ?pid then set_cols r ?u1 else r"
  let ?s' = "snd (alerts_patch_status (rq\<lparr>now := t1\<rparr>) s)"
  have st: "?st \<noteq> JUndefined"
    using valid by (auto simp: js_includes_def)
  have d1: "db ?s' = db (sync_vehicle ?st (set_cols r ?u1)
                          (pg_update ''alerts'' ?u1 ''id'' ?pid s))"
    using db_status_hit [of "rq\<lparr>now := t1\<rparr>" s r] hit valid role by simp
  have avid: "col (set_cols r [(''status'', x), (''updated_at'', y)]) ''assigned_vehicle_id''
      = col r ''assigned_vehicle_id''" for x y
    by (simp add: col_set_cols_other)
  have a1: "db ?s' ''alerts'' = map ?g1 (db s ''alerts'')"
    by (simp add: d1 db_sync_vehicle db_pg_update)
  have hit': "filter (\<lambda>r. col r ''id'' = ?pid) (db ?s' ''alerts'') = [set_cols r ?u1]"
    by (simp add: a1 filter_map_keep col_set_cols_other hit)
  have twice: "set_cols (set_cols r ?u1) ?u2 = set_cols r ?u2" for r
    by (rule set_cols_status_twice [OF st])
  have d2: "db (snd (alerts_patch_status (rq\<lparr>now := t2\<rparr>) ?s'))
      = db (sync_vehicle ?st (set_cols r ?u2) (pg_update ''alerts'' ?u2 ''id'' ?pid ?s'))"
    using db_status_hit [of "rq\<lparr>now := t2\<rparr>" ?s' "set_cols r ?u1"] hit' valid role
    by (simp add: twice)
  have d3: "db (snd (alerts_patch_status (rq\<lparr>now := t2\<rparr>) s))
      = db (sync_vehicle ?st (set_cols r ?u2) (pg_update ''alerts'' ?u2 ''id'' ?pid s))"
    using db_status_hit [of "rq\<lparr>now := t2\<rparr>" s r] hit valid role by simp
  have "db (sync_vehicle ?st (set_cols r ?u2) (pg_update ''alerts'' ?u2 ''id'' ?pid ?s')) t
      = db (sync_vehicle ?st (set_cols r ?u2) (pg_update ''alerts'' ?u2 ''id'' ?pid s)) t"
    for t
    by (simp add: db_sync_vehicle db_pg_update d1 avid twice set_cols_one_twice
        col_set_cols_other)
  then show ?thesis
    unfolding d2 d3 by (rule ext)
qed

lemma forget_time:
  "AList.delete ''updated_at'' (set_cols r [(''status'', st), (''updated_at'', JStr t)])
   = AList.delete ''updated_at'' (set_cols r [(''status'', st)])"
  by (simp add: set_cols_def to_json_def delete_update_same)

lemma once_any_time:
  "map (AList.delete ''updated_at'') (db (snd (alerts_patch_status (rq\<lparr>now := t2\<rparr>) s)) tbl)
   = map (AList.delete ''updated_at'') (db (snd (alerts_patch_status (rq\<lparr>now := t1\<rparr>) s)) tbl)"
proof (cases "(\<exists>r. filter (\<lambda>r. col r ''id'' = params_id rq) (db s ''alerts'') = [r])
           \<and> js_includes validStatuses (get (body rq) ''status'')
           \<and> js_includes [''admin'', ''dispatcher'', ''rescuer''] (u_role rq)")
  case False
  then have "snd (alerts_patch_status (rq\<lparr>now := t\<rparr>) s) = s" for t
    by (intro snd_status_miss) auto
  then show ?thesis by simp
next
  case True
  then obtain r where hit: "filter (\<lambda>r. col r ''id'' = params_id rq) (db s ''alerts'') = [r]"
    and valid: "js_includes validStatuses (get (body rq) ''status'')"
    and role: "js_includes [''admin'', ''dispatcher'', ''rescuer''] (u_role rq)"
    by blast
  let ?st = "get (body rq) ''status''"
  have d: "db (snd (alerts_patch_status (rq\<lparr>now := t\<rparr>) s))
      = db (sync_vehicle ?st (set_cols r [(''status'', ?st), (''updated_at'', JStr t)])
              (pg_update ''alerts'' [(''status'', ?st), (''updated_at'', JStr t)]
                 ''id'' (params_id rq) s))" for t
    using db_status_hit [of "rq\<lparr>now := t\<rparr>" s r] hit valid role by simp
  have avid: "col (set_cols r [(''status'', x), (''updated_at'', y)]) ''assigned_vehicle_id''
      = col r ''assigned_vehicle_id''" for x y
    by (simp add: col_set_cols_other)
  show ?thesis
    by (simp add: d db_sync_vehicle db_pg_update avid forget_time)
qed

text \<open>
  C8: a status change made twice in succession (at the times \<open>t1\<close> and \<open>t2\<close>) leaves
  the tables of the store exactly as the single call at \<open>t2\<close> leaves them; and it
  leaves them as the single call at \<open>t1\<close> leaves them in every column but
  \<open>updated_at\<close>, which holds the time of the last call. So the second call has no
  effect of its own on the status of the alert or on the vehicle: it writes the same
  values again. This holds for every request and every store, in particular when the
  requested status is the alert's current one. (Each call broadcasts its own event; the
  tables are what is compared.)
\<close>

theorem alerts_patch_status_idempotent:
  "db (snd (alerts_patch_status (rq\<lparr>now := t2\<rparr>)
              (snd (alerts_patch_status (rq\<lparr>now := t1\<rparr>) s))))
     = db (snd (alerts_patch_status (rq\<lparr>now := t2\<rparr>) s))
   \<and> map (AList.delete ''updated_at'')
       (db (snd (alerts_patch_status (rq\<lparr>now := t2\<rparr>)
                   (snd (alerts_patch_status (rq\<lparr>now := t1\<rparr>) s)))) tbl)
     = map (AList.delete ''updated_at'')
         (db (snd (alerts_patch_status (rq\<lparr>now := t1\<rparr>) s)) tbl)"
  by (simp add: status_twice_is_last_call once_any_time)

section \<open>The notifier before and after its initialisation\<close>

lemma caught_not_init [simp]:
  "(caught e = reply 500 (message ''Socket.io not initialized''))
     = (e = Error ''Socket.io not initialized'')"
  by (cases e) auto

lemma broadcast_tail:
  assumes "truthy (io s1)" "c \<noteq> 500"
  shows "fst (case broadcast ev d s1 of Inl e \<Rightarrow> (caught e, s1) | Inr s2 \<Rightarrow> (reply c p, s2))
           \<noteq> reply 500 (message ''Socket.io not initialized'')
       \<and> io (snd (case broadcast ev d s1 of Inl e \<Rightarrow> (caught e, s1)
                                           | Inr s2 \<Rightarrow> (reply c p, s2))) = io s1"
proof (cases "broadcast ev d s1")
  case (Inl e)
  with assms(1) have "e = Error ''io.emit is not a function''"
    by (auto dest: broadcast_error)
  with Inl show ?thesis by simp
next
  case (Inr s2)
  then have "io s2 = io s1" by (rule io_broadcast)
  with Inr assms(2) show ?thesis by simp
qed

lemma alerts_put_initialised:
  assumes "truthy (io s)"
  shows "fst (alerts_put rq s) \<noteq> reply 500 (message ''Socket.io not initialized'')
         \<and> io (snd (alerts_put rq s)) = io s"
proof (cases "js_includes [''admin'', ''dispatcher''] (u_role rq)")
  case False
  then show ?thesis by (simp add: alerts_put_def)
next
  case True
  let ?upd = "filter (\<lambda>(k, v). v \<noteq> JUndefined)
                (AList.update ''updated_at'' (JStr (now rq)) (body rq))"
  obtain x s1 where u: "pg_update_single ''alerts'' ?upd ''id'' (params_id rq) s = (x, s1)"
    by (cases "pg_update_single ''alerts'' ?upd ''id'' (params_id rq) s")
  from pg_update_single_cases [OF u] have io1: "io s1 = io s"
    and err: "\<And>e. x = Inl e \<Longrightarrow> e = PGRST116" by auto
  show ?thesis
  proof (cases x)
    case (Inl e)
    with err have "e = PGRST116" by simp
    with Inl u True io1 show ?thesis
      by (simp add: alerts_put_def Let_def PGRST116_def)
  next
    case (Inr data)
    from assms io1 have "truthy (io s1)" by simp
    from broadcast_tail [OF this, of 200] Inr u True io1 show ?thesis
      by (simp add: alerts_put_def Let_def)
  qed
qed

lemma alerts_patch_status_initialised:
  assumes "truthy (io s)"
  shows "fst (alerts_patch_status rq s) \<noteq> reply 500 (message ''Socket.io not initialized'')
         \<and> io (snd (alerts_patch_status rq s)) = io s"
proof (cases "js_includes validStatuses (get (body rq) ''status'')
              \<and> js_includes [''admin'', ''dispatcher'', ''rescuer''] (u_role rq)")
  case False
  then show ?thesis by (auto simp: alerts_patch_status_def Let_def)
next
  case True
  let ?upd = "[(''status'', get (body rq) ''status''), (''updated_at'', JStr (now rq))]"
  obtain x s1 where u: "pg_update_single ''alerts'' ?upd ''id'' (params_id rq) s = (x, s1)"
    by (cases "pg_update_single ''alerts'' ?upd ''id'' (params_id rq) s")
  from pg_update_single_cases [OF u] have io1: "io s1 = io s"
    and err: "\<And>e. x = Inl e \<Longrightarrow> e = PGRST116" by auto
  show ?thesis
  proof (cases x)
    case (Inl e)
    with err have "e = PGRST116" by simp
    with Inl u True io1 show ?thesis
      by (simp add: alerts_patch_status_def Let_def PGRST116_def)
  next
    case (Inr data)
    from assms io1 have "truthy (io (sync_vehicle (get (body rq) ''status'') data s1))"
      by simp
    from broadcast_tail [OF this, of 200] Inr u True io1 show ?thesis
      by (simp add: alerts_patch_status_def Let_def)
  qed
qed

lemma alerts_delete_initialised:
  assumes "truthy (io s)"
  shows "fst (alerts_delete rq s) \<noteq> reply 500 (message ''Socket.io not initialized'')
         \<and> io (snd (alerts_delete rq s)) = io s"
proof (cases "u_role rq = JStr ''admin''")
  case False
  then show ?thesis by (simp add: alerts_delete_def)
next
  case True
  from assms have "truthy (io (pg_delete ''alerts'' ''id'' (params_id rq) s))" by simp
  from broadcast_tail [OF this, of 200] True show ?thesis
    by (simp add: alerts_delete_def Let_def)
qed

lemma alerts_patch_assign_initialised:
  assumes "truthy (io s)"
  shows "fst (alerts_patch_assign rq s) \<noteq> reply 500 (message ''Socket.io not initialized'')
         \<and> io (snd (alerts_patch_assign rq s)) = io s"
proof (cases "js_includes [''admin'', ''dispatcher''] (u_role rq)")
  case False
  then show ?thesis by (simp add: alerts_patch_assign_def Let_def)
next
  case True
  show ?thesis
  proof (cases "pg_select_single ''alerts'' (project [''assigned_vehicle_id''])
                  ''id'' (params_id rq) s")
    case (Inl e)
    then have "e = PGRST116" by (rule pg_select_single_error)
    with Inl True show ?thesis
      by (simp add: alerts_patch_assign_def Let_def PGRST116_def)
  next
    case (Inr cur)
    let ?upd = "[(''assigned_vehicle_id'', js_or (get (body rq) ''vehicle_id'') JNull),
                 (''assigned_responder_id'', js_or (get (body rq) ''responder_id'') JNull),
                 (''updated_at'', JStr (now rq))]"
    obtain x s1 where u: "pg_update_single ''alerts'' ?upd ''id'' (params_id rq) s = (x, s1)"
      by (cases "pg_update_single ''alerts'' ?upd ''id'' (params_id rq) s")
    from pg_update_single_cases [OF u] have io1: "io s1 = io s"
      and err: "\<And>e. x = Inl e \<Longrightarrow> e = PGRST116" by auto
    show ?thesis
    proof (cases x)
      case (Inl e)
      with err have "e = PGRST116" by simp
      with Inl u True Inr io1 show ?thesis
        by (simp add: alerts_patch_assign_def Let_def PGRST116_def)
    next
      case r: (Inr data)
      show ?thesis using r u True Inr io1 assms
        by (simp add: alerts_patch_assign_def Let_def broadcast_tail)
    qed
  qed
qed

lemma alerts_post_initialised:
  assumes "truthy (io s)"
  shows "fst (alerts_post pf rq s) \<noteq> reply 500 (message ''Socket.io not initialized'')
         \<and> io (snd (alerts_post pf rq s)) = io s"
proof -
  have ins: "fst (case pg_insert_single t r s of (data, s1) \<Rightarrow>
                (case broadcast ev (JObj data) s1 of Inl e \<Rightarrow> (caught e, s1)
                 | Inr s2 \<Rightarrow> (reply 201 (JObj data), s2)))
               \<noteq> reply 500 (message ''Socket.io not initialized'')
           \<and> io (snd (case pg_insert_single t r s of (data, s1) \<Rightarrow>
                (case broadcast ev (JObj data) s1 of Inl e \<Rightarrow> (caught e, s1)
                 | Inr s2 \<Rightarrow> (reply 201 (JObj data), s2)))) = io s" for t r ev
  proof -
    obtain d s1 where p: "pg_insert_single t r s = (d, s1)"
      by (cases "pg_insert_single t r s")
    then have i: "io s1 = io s" by (rule io_pg_insert_single)
    with assms have "truthy (io s1)" by simp
    from broadcast_tail [OF this, of 201] p i show ?thesis by simp
  qed
  show ?thesis
    by (auto simp: alerts_post_def Let_def ins split: sum.splits
        dest: trim_error opt_trim_error)
qed

text \<open>
  C9, as the claim states it, fails: \<open>getIO\<close> tests \<open>!io\<close>, so a value that is not
  \<open>null\<close> but falsy, such as 0, leaves the notifier uninitialised, and a status change
  made after \<open>setIO(0)\<close> answers 500 with that error.
\<close>

theorem getIO_after_setIO_zero:
  "JNum 0 \<noteq> JNull
   \<and> getIO (setIO (JNum 0) (boot demo_db)) = Inl (Error ''Socket.io not initialized'')
   \<and> fst (alerts_patch_status (staff_rq ''admin'' 2 [(''status'', JStr ''responding'')])
            (setIO (JNum 0) (boot demo_db)))
     = reply 500 (message ''Socket.io not initialized'')"
  by (simp add: alerts_patch_status_def sync_vehicle_def validStatuses_def Let_def
      demo_defs store_defs io_defs)

text \<open>
  C9, amended: before any \<open>setIO\<close> the call \<open>getIO()\<close> throws
  "Socket.io not initialized"; after \<open>setIO(x)\<close> with a truthy \<open>x\<close> (every object is
  truthy, so the Socket.io server is) \<open>getIO()\<close> returns \<open>x\<close>; and in every state whose
  notifier reference is truthy no lifecycle mutation of an alert answers with that
  error, and the reference is still the same afterwards.
\<close>

theorem getIO_setIO:
  "getIO (boot d) = Inl (Error ''Socket.io not initialized'')
   \<and> (truthy x \<longrightarrow> getIO (setIO x s) = Inr x)
   \<and> (truthy (io s) \<longrightarrow>
        fst (alerts_mutation parseFloat route rq s)
          \<noteq> reply 500 (message ''Socket.io not initialized'')
        \<and> io (snd (alerts_mutation parseFloat route rq s)) = io s)"
  by (cases route)
    (simp_all add: getIO_def setIO_def boot_def alerts_post_initialised
      alerts_put_initialised alerts_patch_status_initialised
      alerts_patch_assign_initialised alerts_delete_initialised)

text \<open>The amended C9 for the server object of the sample process and a status change.\<close>

theorem getIO_setIO_witness:
  "truthy (JHost 1)
   \<and> getIO (setIO (JHost 1) (boot demo_db)) = Inr (JHost 1)
   \<and> truthy (io demo)
   \<and> fst (alerts_mutation (\<lambda>v. v) PATCH_status
            (staff_rq ''rescuer'' 2 [(''status'', JStr ''responding'')]) demo)
       \<noteq> reply 500 (message ''Socket.io not initialized'')
   \<and> io (snd (alerts_mutation (\<lambda>v. v) PATCH_status
                 (staff_rq ''rescuer'' 2 [(''status'', JStr ''responding'')]) demo))
       = io demo"
proof -
  have t1: "truthy (JHost 1)" by simp
  have t2: "truthy (io demo)" by (simp add: demo_defs)
  from getIO_setIO [of demo_db "JHost 1" "boot demo_db" "\<lambda>v. v" PATCH_status
      "staff_rq ''rescuer'' 2 [(''status'', JStr ''responding'')]"]
    getIO_setIO [of demo_db "JHost 1" demo "\<lambda>v. v" PATCH_status
      "staff_rq ''rescuer'' 2 [(''status'', JStr ''responding'')]"] t1 t2
  show ?thesis by blast
qed

section \<open>Status changes and the assigned vehicle\<close>

lemma status_success:
  assumes hit: "filter (\<lambda>r. col r ''id'' = params_id rq) (db s ''alerts'') = [r]"
    and ok: "code (fst (alerts_patch_status rq s)) = 200"
  shows "js_includes validStatuses (get (body rq) ''status'')
    \<and> db (snd (alerts_patch_status rq s)) =
         db (sync_vehicle (get (body rq) ''status'')
               (set_cols r [(''status'', get (body rq) ''status''),
                            (''updated_at'', JStr (now rq))])
               (pg_update ''alerts''
                  [(''status'', get (body rq) ''status''), (''updated_at'', JStr (now rq))]
                  ''id'' (params_id rq) s))
    \<and> journal (snd (alerts_patch_status rq s)) =
         journal (sync_vehicle (get (body rq) ''status'')
               (set_cols r [(''status'', get (body rq) ''status''),
                            (''updated_at'', JStr (now rq))])
               (pg_update ''alerts''
                  [(''status'', get (body rq) ''status''), (''updated_at'', JStr (now rq))]
                  ''id'' (params_id rq) s))"
  using ok
  by (auto simp: alerts_patch_status_def Let_def pg_update_single_hit [OF hit]
      db_broadcast journal_broadcast split: sum.splits if_splits)

text \<open>
  C2, as the claim states it, fails: the handler tests the truthiness of
  \<open>data.assigned_vehicle_id\<close>, and the vehicle id 0 is not \<open>null\<close> but falsy. Alert 3
  of the sample store holds vehicle 0; a rescuer sets the alert to \<open>responding\<close>, the
  call answers 200, and vehicle 0 keeps the status \<open>assigned\<close>.
\<close>

theorem vehicle_zero_not_synced:
  "map (\<lambda>r. col r ''assigned_vehicle_id'')
     (filter (\<lambda>r. col r ''id'' = JNum 3) (db demo ''alerts'')) = [JNum 0]
   \<and> JNum 0 \<noteq> JNull
   \<and> code (fst (alerts_patch_status
                  (staff_rq ''rescuer'' 3 [(''status'', JStr ''responding'')]) demo)) = 200
   \<and> map (\<lambda>x. (col x ''id'', col x ''status''))
        (db (snd (alerts_patch_status
                    (staff_rq ''rescuer'' 3 [(''status'', JStr ''responding'')]) demo))
           ''vehicles'')
     = [(JNum 7, JStr ''assigned''), (JNum 8, JStr ''available''),
        (JNum 0, JStr ''assigned'')]"
  by (simp add: alerts_patch_status_def sync_vehicle_def validStatuses_def Let_def
      demo_defs store_defs io_defs reply_def)

text \<open>
  C2, amended: let an alert hold the vehicle id \<open>v\<close>, where \<open>v\<close> is not 0 (the
  handler treats 0 like \<open>null\<close>). After a successful status change to \<open>responding\<close>
  the store holds the same vehicles as before and every vehicle with the id \<open>v\<close> has
  the status \<open>responding\<close>; after one to \<open>resolved\<close> it has the status \<open>available\<close>.
  When the alert's \<open>assigned_vehicle_id\<close> is \<open>null\<close> (or 0), a successful status change
  leaves the vehicles as they were, and its only write is the update of the alert.
\<close>

theorem alerts_patch_status_vehicle_sync:
  assumes hit: "filter (\<lambda>r. col r ''id'' = params_id rq) (db s ''alerts'') = [r]"
    and ok: "code (fst (alerts_patch_status rq s)) = 200"
  shows
   "(get (body rq) ''status'' = JStr ''responding''
       \<and> col r ''assigned_vehicle_id'' = JNum v \<and> v \<noteq> 0 \<longrightarrow>
       map (\<lambda>x. col x ''id'') (db (snd (alerts_patch_status rq s)) ''vehicles'')
         = map (\<lambda>x. col x ''id'') (db s ''vehicles'')
       \<and> map (\<lambda>x. col x ''status'')
           (filter (\<lambda>x. col x ''id'' = JNum v)
              (db (snd (alerts_patch_status rq s)) ''vehicles''))
         = map (\<lambda>x. JStr ''responding'')
             (filter (\<lambda>x. col x ''id'' = JNum v) (db s ''vehicles'')))
    \<and> (get (body rq) ''status'' = JStr ''resolved''
       \<and> col r ''assigned_vehicle_id'' = JNum v \<and> v \<noteq> 0 \<longrightarrow>
       map (\<lambda>x. col x ''id'') (db (snd (alerts_patch_status rq s)) ''vehicles'')
         = map (\<lambda>x. col x ''id'') (db s ''vehicles'')
       \<and> map (\<lambda>x. col x ''status'')
           (filter (\<lambda>x. col x ''id'' = JNum v)
              (db (snd (alerts_patch_status rq s)) ''vehicles''))
         = map (\<lambda>x. JStr ''available'')
             (filter (\<lambda>x. col x ''id'' = JNum v) (db s ''vehicles'')))
    \<and> (\<not> truthy (col r ''assigned_vehicle_id'') \<longrightarrow>
       db (snd (alerts_patch_status rq s)) ''vehicles'' = db s ''vehicles''
       \<and> journal (snd (alerts_patch_status rq s))
         = journal s @ [Update ''alerts''
               [(''status'', get (body rq) ''status''), (''updated_at'', JStr (now rq))]
               ''id'' (params_id rq)])"
proof -
  note suc = status_success [OF hit ok]
  have avid: "col (set_cols r [(''status'', x), (''updated_at'', y)]) ''assigned_vehicle_id''
      = col r ''assigned_vehicle_id''" for x y
    by (simp add: col_set_cols_other)
  show ?thesis
    by (simp add: suc db_sync_vehicle journal_sync_vehicle db_pg_update avid
        ids_after_update status_after_update col_set_cols_other)
qed

text \<open>
  The amended C2 in the sample store: alert 1 holds vehicle 7 (set to \<open>responding\<close>,
  and to \<open>available\<close>), alert 2 holds no vehicle.
\<close>

theorem alerts_patch_status_vehicle_sync_witness:
  "code (fst (alerts_patch_status
                (staff_rq ''rescuer'' 1 [(''status'', JStr ''responding'')]) demo)) = 200
   \<and> code (fst (alerts_patch_status
                  (staff_rq ''dispatcher'' 1 [(''status'', JStr ''resolved'')]) demo)) = 200
   \<and> code (fst (alerts_patch_status
                  (staff_rq ''admin'' 2 [(''status'', JStr ''cancelled'')]) demo)) = 200
   \<and> map (\<lambda>x. col x ''status'')
     (filter (\<lambda>x. col x ''id'' = JNum 7)
        (db (snd (alerts_patch_status
                    (staff_rq ''rescuer'' 1 [(''status'', JStr ''responding'')]) demo))
           ''vehicles'')) = [JStr ''responding'']
   \<and> map (\<lambda>x. col x ''status'')
       (filter (\<lambda>x. col x ''id'' = JNum 7)
          (db (snd (alerts_patch_status
                      (staff_rq ''dispatcher'' 1 [(''status'', JStr ''resolved'')]) demo))
             ''vehicles'')) = [JStr ''available'']
   \<and> db (snd (alerts_patch_status
                (staff_rq ''admin'' 2 [(''status'', JStr ''cancelled'')]) demo)) ''vehicles''
       = db demo ''vehicles''
   \<and> journal (snd (alerts_patch_status
                     (staff_rq ''admin'' 2 [(''status'', JStr ''cancelled'')]) demo))
       = [Update ''alerts'' [(''status'', JStr ''cancelled''),
                             (''updated_at'', JStr ''2026-01-01T00:00:00.000Z'')]
            ''id'' (JNum 2)]"
proof -
  let ?a1 = "[(''id'', JNum 1), (''user_id'', JNum 10), (''status'', JStr ''resolved''),
              (''assigned_vehicle_id'', JNum 7)]"
  let ?a2 = "[(''id'', JNum 2), (''user_id'', JNum 11), (''status'', JStr ''pending'')]"
  let ?rq1 = "staff_rq ''rescuer'' 1 [(''status'', JStr ''responding'')]"
  let ?rq2 = "staff_rq ''dispatcher'' 1 [(''status'', JStr ''resolved'')]"
  let ?rq3 = "staff_rq ''admin'' 2 [(''status'', JStr ''cancelled'')]"
  have hit1: "filter (\<lambda>r. col r ''id'' = params_id ?rq1) (db demo ''alerts'') = [?a1]"
    by (simp add: demo_defs col_def)
  have hit2: "filter (\<lambda>r. col r ''id'' = params_id ?rq2) (db demo ''alerts'') = [?a1]"
    by (simp add: demo_defs col_def)
  have hit3: "filter (\<lambda>r. col r ''id'' = params_id ?rq3) (db demo ''alerts'') = [?a2]"
    by (simp add: demo_defs col_def)
  have ok1: "code (fst (alerts_patch_status ?rq1 demo)) = 200"
    by (simp add: alerts_patch_status_def sync_vehicle_def validStatuses_def Let_def
        demo_defs store_defs io_defs reply_def)
  have ok2: "code (fst (alerts_patch_status ?rq2 demo)) = 200"
    by (simp add: alerts_patch_status_def sync_vehicle_def validStatuses_def Let_def
        demo_defs store_defs io_defs reply_def)
  have ok3: "code (fst (alerts_patch_status ?rq3 demo)) = 200"
    by (simp add: alerts_patch_status_def sync_vehicle_def validStatuses_def Let_def
        demo_defs store_defs io_defs reply_def)
  have v7: "filter (\<lambda>x. col x ''id'' = JNum 7) (db demo ''vehicles'')
      = [[(''id'', JNum 7), (''status'', JStr ''assigned'')]]"
    by (simp add: demo_defs col_def)
  have st1: "get (body ?rq1) ''status'' = JStr ''responding''"
    by (simp add: staff_rq_def get_def)
  have st2: "get (body ?rq2) ''status'' = JStr ''resolved''"
    by (simp add: staff_rq_def get_def)
  have st3: "get (body ?rq3) ''status'' = JStr ''cancelled''"
    by (simp add: staff_rq_def get_def)
  have av1: "col ?a1 ''assigned_vehicle_id'' = JNum 7"
    by (simp add: col_def)
  have av2: "\<not> truthy (col ?a2 ''assigned_vehicle_id'')"
    by (simp add: col_def)
  have j: "journal demo = []" "now ?rq3 = ''2026-01-01T00:00:00.000Z''"
    "params_id ?rq3 = JNum 2"
    by (simp_all add: demo_defs)
  from alerts_patch_status_vehicle_sync [OF hit1 ok1, of 7]
  have c1: "map (\<lambda>x. col x ''status'')
     (filter (\<lambda>x. col x ''id'' = JNum 7) (db (snd (alerts_patch_status ?rq1 demo)) ''vehicles''))
     = [JStr ''responding'']"
    by (simp add: v7 st1 av1)
  from alerts_patch_status_vehicle_sync [OF hit2 ok2, of 7]
  have c2: "map (\<lambda>x. col x ''status'')
     (filter (\<lambda>x. col x ''id'' = JNum 7) (db (snd (alerts_patch_status ?rq2 demo)) ''vehicles''))
     = [JStr ''available'']"
    by (simp add: v7 st2 av1)
  from alerts_patch_status_vehicle_sync [OF hit3 ok3, of 0]
  have c3: "db (snd (alerts_patch_status ?rq3 demo)) ''vehicles'' = db demo ''vehicles''
     \<and> journal (snd (alerts_patch_status ?rq3 demo))
       = [Update ''alerts'' [(''status'', JStr ''cancelled''),
                             (''updated_at'', JStr ''2026-01-01T00:00:00.000Z'')]
            ''id'' (JNum 2)]"
    by (simp add: st3 av2 j)
  from ok1 ok2 ok3 c1 c2 c3 show ?thesis by blast
qed

section \<open>Assignment and the two vehicles\<close>

text \<open>
  C3, as the claim states it, fails, because the handler tests the truthiness of both
  vehicle ids and 0 is falsy. Alert 3 of the sample store holds vehicle 0: when a
  dispatcher assigns vehicle 8 instead, vehicle 0 is not set to \<open>available\<close>. And
  alert 1 holds vehicle 7: when a dispatcher assigns vehicle 0 (which is \<open>available\<close>),
  vehicle 0 is not set to \<open>assigned\<close>.
\<close>

theorem assign_vehicle_zero:
  "map (\<lambda>r. col r ''assigned_vehicle_id'')
     (filter (\<lambda>r. col r ''id'' = JNum 3) (db demo ''alerts'')) = [JNum 0]
   \<and> code (fst (alerts_patch_assign (staff_rq ''dispatcher'' 3 [(''vehicle_id'', JNum 8)]) demo))
       = 200
   \<and> map (\<lambda>x. (col x ''id'', col x ''status''))
        (db (snd (alerts_patch_assign
                    (staff_rq ''dispatcher'' 3 [(''vehicle_id'', JNum 8)]) demo)) ''vehicles'')
     = [(JNum 7, JStr ''assigned''), (JNum 8, JStr ''assigned''), (JNum 0, JStr ''assigned'')]
   \<and> map (\<lambda>r. col r ''assigned_vehicle_id'')
       (filter (\<lambda>r. col r ''id'' = JNum 1) (db demo_free ''alerts'')) = [JNum 7]
   \<and> code (fst (alerts_patch_assign (staff_rq ''dispatcher'' 1 [(''vehicle_id'', JNum 0)])
                  demo_free)) = 200
   \<and> map (\<lambda>x. (col x ''id'', col x ''status''))
        (db (snd (alerts_patch_assign
                    (staff_rq ''dispatcher'' 1 [(''vehicle_id'', JNum 0)]) demo_free))
           ''vehicles'')
     = [(JNum 7, JStr ''available''), (JNum 8, JStr ''available''),
        (JNum 0, JStr ''available'')]"
  by (simp add: alerts_patch_assign_def Let_def js_or_def demo_defs store_defs io_defs
      reply_def)

text \<open>
  C3, amended: let an alert hold the vehicle id \<open>v1\<close>, and let an administrator or
  dispatcher assign the vehicle id \<open>v2\<close>, neither id being 0 (the handler treats 0
  like \<open>null\<close>). After the call the store holds the same vehicles as before and every
  vehicle with the id \<open>v2\<close> has the status \<open>assigned\<close>. If \<open>v1\<close> and \<open>v2\<close> differ,
  every vehicle with the id \<open>v1\<close> has the status \<open>available\<close>, and the writes of the
  call are, in this order, the update of the alert, the one that frees \<open>v1\<close> and the
  one that assigns \<open>v2\<close>. If they are equal, the writes are the update of the alert
  and the one that assigns the vehicle: it is not set to \<open>available\<close>.
\<close>

theorem alerts_patch_assign_vehicles:
  assumes hit: "filter (\<lambda>r. col r ''id'' = params_id rq) (db s ''alerts'') = [r]"
    and role: "js_includes [''admin'', ''dispatcher''] (u_role rq)"
    and v1: "col r ''assigned_vehicle_id'' = JNum v1" "v1 \<noteq> 0"
    and v2: "get (body rq) ''vehicle_id'' = JNum v2" "v2 \<noteq> 0"
  shows
   "map (\<lambda>x. col x ''id'') (db (snd (alerts_patch_assign rq s)) ''vehicles'')
      = map (\<lambda>x. col x ''id'') (db s ''vehicles'')
    \<and> map (\<lambda>x. col x ''status'')
         (filter (\<lambda>x. col x ''id'' = JNum v2)
            (db (snd (alerts_patch_assign rq s)) ''vehicles''))
       = map (\<lambda>x. JStr ''assigned'') (filter (\<lambda>x. col x ''id'' = JNum v2) (db s ''vehicles''))
    \<and> (v1 \<noteq> v2 \<longrightarrow>
         map (\<lambda>x. col x ''status'')
           (filter (\<lambda>x. col x ''id'' = JNum v1)
              (db (snd (alerts_patch_assign rq s)) ''vehicles''))
         = map (\<lambda>x. JStr ''available'')
             (filter (\<lambda>x. col x ''id'' = JNum v1) (db s ''vehicles''))
         \<and> journal (snd (alerts_patch_assign rq s))
           = journal s @
             [Update ''alerts''
                [(''assigned_vehicle_id'', JNum v2),
                 (''assigned_responder_id'', js_or (get (body rq) ''responder_id'') JNull),
                 (''updated_at'', JStr (now rq))] ''id'' (params_id rq),
              Update ''vehicles'' [(''status'', JStr ''available'')] ''id'' (JNum v1),
              Update ''vehicles'' [(''status'', JStr ''assigned'')] ''id'' (JNum v2)])
    \<and> (v1 = v2 \<longrightarrow>
         journal (snd (alerts_patch_assign rq s))
           = journal s @
             [Update ''alerts''
                [(''assigned_vehicle_id'', JNum v2),
                 (''assigned_responder_id'', js_or (get (body rq) ''responder_id'') JNull),
                 (''updated_at'', JStr (now rq))] ''id'' (params_id rq),
              Update ''vehicles'' [(''status'', JStr ''assigned'')] ''id'' (JNum v2)])"
proof -
  let ?upd = "[(''assigned_vehicle_id'', JNum v2),
               (''assigned_responder_id'', js_or (get (body rq) ''responder_id'') JNull),
               (''updated_at'', JStr (now rq))]"
  let ?F = "\<lambda>r. if col r ''id'' = JNum v1
                then set_cols r [(''status'', JStr ''available'')] else r"
  let ?A = "\<lambda>r. if col r ''id'' = JNum v2
                then set_cols r [(''status'', JStr ''assigned'')] else r"
  let ?V = "db s ''vehicles''"
  let ?s1 = "pg_update ''alerts'' ?upd ''id'' (params_id rq) s"
  let ?s2 = "if v1 \<noteq> v2
             then pg_update ''vehicles'' [(''status'', JStr ''available'')] ''id'' (JNum v1) ?s1
             else ?s1"
  let ?s3 = "pg_update ''vehicles'' [(''status'', JStr ''assigned'')] ''id'' (JNum v2) ?s2"
  let ?s' = "snd (alerts_patch_assign rq s)"
  have run: "db ?s' = db ?s3 \<and> journal ?s' = journal ?s3"
    using role v1 v2
    by (simp add: alerts_patch_assign_def Let_def select_projected [OF hit] js_or_def
        pg_update_single_hit [OF hit] broadcast_tail_state)
  have veh: "db ?s' ''vehicles'' = (if v1 \<noteq> v2 then map ?A (map ?F ?V) else map ?A ?V)"
    by (simp add: run db_pg_update del: map_map)
  have jn: "journal ?s' = journal s @ [Update ''alerts'' ?upd ''id'' (params_id rq)]
      @ (if v1 \<noteq> v2
         then [Update ''vehicles'' [(''status'', JStr ''available'')] ''id'' (JNum v1)]
         else [])
      @ [Update ''vehicles'' [(''status'', JStr ''assigned'')] ''id'' (JNum v2)]"
    by (simp add: run)
  have ids: "map (\<lambda>x. col x ''id'') (db ?s' ''vehicles'') = map (\<lambda>x. col x ''id'') ?V"
    unfolding veh by (simp add: ids_after_update del: map_map)
  have new: "map (\<lambda>x. col x ''status'')
               (filter (\<lambda>x. col x ''id'' = JNum v2) (db ?s' ''vehicles''))
       = map (\<lambda>x. JStr ''assigned'') (filter (\<lambda>x. col x ''id'' = JNum v2) ?V)"
  proof (cases "v1 = v2")
    case True
    then show ?thesis
      unfolding veh by (simp add: status_after_update del: map_map)
  next
    case False
    then show ?thesis
      unfolding veh by (simp add: two_updates_second del: map_map)
  qed
  have old: "map (\<lambda>x. col x ''status'')
               (filter (\<lambda>x. col x ''id'' = JNum v1) (db ?s' ''vehicles''))
       = map (\<lambda>x. JStr ''available'') (filter (\<lambda>x. col x ''id'' = JNum v1) ?V)"
    if "v1 \<noteq> v2"
    unfolding veh using that by (simp add: two_updates_first del: map_map)
  show ?thesis
    using ids new old by (simp add: jn)
qed

text \<open>
  The amended C3 in the sample store: alert 1 holds vehicle 7 and gets vehicle 8; then,
  from the same store, it gets vehicle 7 again.
\<close>

theorem alerts_patch_assign_vehicles_witness:
  "col [(''id'', JNum 1), (''user_id'', JNum 10), (''status'', JStr ''resolved''),
        (''assigned_vehicle_id'', JNum 7)] ''assigned_vehicle_id'' = JNum 7
   \<and> map (\<lambda>x. (col x ''id'', col x ''status'')) (db demo ''vehicles'')
       = [(JNum 7, JStr ''assigned''), (JNum 8, JStr ''available''),
          (JNum 0, JStr ''assigned'')]
   \<and> map (\<lambda>x. col x ''status'')
       (filter (\<lambda>x. col x ''id'' = JNum 7)
          (db (snd (alerts_patch_assign
                      (staff_rq ''dispatcher'' 1 [(''vehicle_id'', JNum 8)]) demo))
             ''vehicles'')) = [JStr ''available'']
   \<and> map (\<lambda>x. col x ''status'')
       (filter (\<lambda>x. col x ''id'' = JNum 8)
          (db (snd (alerts_patch_assign
                      (staff_rq ''dispatcher'' 1 [(''vehicle_id'', JNum 8)]) demo))
             ''vehicles'')) = [JStr ''assigned'']
   \<and> journal (snd (alerts_patch_assign
                     (staff_rq ''dispatcher'' 1 [(''vehicle_id'', JNum 8)]) demo))
       = [Update ''alerts''
            [(''assigned_vehicle_id'', JNum 8), (''assigned_responder_id'', JNull),
             (''updated_at'', JStr ''2026-01-01T00:00:00.000Z'')] ''id'' (JNum 1),
          Update ''vehicles'' [(''status'', JStr ''available'')] ''id'' (JNum 7),
          Update ''vehicles'' [(''status'', JStr ''assigned'')] ''id'' (JNum 8)]
   \<and> journal (snd (alerts_patch_assign
                     (staff_rq ''admin'' 1 [(''vehicle_id'', JNum 7)]) demo))
       = [Update ''alerts''
            [(''assigned_vehicle_id'', JNum 7), (''assigned_responder_id'', JNull),
             (''updated_at'', JStr ''2026-01-01T00:00:00.000Z'')] ''id'' (JNum 1),
          Update ''vehicles'' [(''status'', JStr ''assigned'')] ''id'' (JNum 7)]"
proof -
  let ?a1 = "[(''id'', JNum 1), (''user_id'', JNum 10), (''status'', JStr ''resolved''),
              (''assigned_vehicle_id'', JNum 7)]"
  let ?rq1 = "staff_rq ''dispatcher'' 1 [(''vehicle_id'', JNum 8)]"
  let ?rq2 = "staff_rq ''admin'' 1 [(''vehicle_id'', JNum 7)]"
  have hit1: "filter (\<lambda>r. col r ''id'' = params_id ?rq1) (db demo ''alerts'') = [?a1]"
    by (simp add: demo_defs col_def)
  have hit2: "filter (\<lambda>r. col r ''id'' = params_id ?rq2) (db demo ''alerts'') = [?a1]"
    by (simp add: demo_defs col_def)
  have role1: "js_includes [''admin'', ''dispatcher''] (u_role ?rq1)"
    by (simp add: staff_rq_def)
  have role2: "js_includes [''admin'', ''dispatcher''] (u_role ?rq2)"
    by (simp add: staff_rq_def)
  have av: "col ?a1 ''assigned_vehicle_id'' = JNum 7"
    by (simp add: col_def)
  have b1: "get (body ?rq1) ''vehicle_id'' = JNum 8"
    by (simp add: staff_rq_def get_def)
  have b2: "get (body ?rq2) ''vehicle_id'' = JNum 7"
    by (simp add: staff_rq_def get_def)
  have veh: "map (\<lambda>x. (col x ''id'', col x ''status'')) (db demo ''vehicles'')
       = [(JNum 7, JStr ''assigned''), (JNum 8, JStr ''available''),
          (JNum 0, JStr ''assigned'')]"
    by (simp add: demo_defs col_def)
  have v7: "filter (\<lambda>x. col x ''id'' = JNum 7) (db demo ''vehicles'')
      = [[(''id'', JNum 7), (''status'', JStr ''assigned'')]]"
    by (simp add: demo_defs col_def)
  have v8: "filter (\<lambda>x. col x ''id'' = JNum 8) (db demo ''vehicles'')
      = [[(''id'', JNum 8), (''status'', JStr ''available'')]]"
    by (simp add: demo_defs col_def)
  have misc: "journal demo = []"
    "now ?rq1 = ''2026-01-01T00:00:00.000Z''" "params_id ?rq1 = JNum 1"
    "now ?rq2 = ''2026-01-01T00:00:00.000Z''" "params_id ?rq2 = JNum 1"
    "js_or (get (body ?rq1) ''responder_id'') JNull = JNull"
    "js_or (get (body ?rq2) ''responder_id'') JNull = JNull"
    by (simp_all add: demo_defs get_def js_or_def)
  have n78: "(7::real) \<noteq> 0" "(8::real) \<noteq> 0" by simp_all
  from alerts_patch_assign_vehicles [OF hit1 role1 av n78(1) b1 n78(2)]
  have c1: "map (\<lambda>x. col x ''status'')
       (filter (\<lambda>x. col x ''id'' = JNum 7)
          (db (snd (alerts_patch_assign ?rq1 demo)) ''vehicles'')) = [JStr ''available'']
     \<and> map (\<lambda>x. col x ''status'')
       (filter (\<lambda>x. col x ''id'' = JNum 8)
          (db (snd (alerts_patch_assign ?rq1 demo)) ''vehicles'')) = [JStr ''assigned'']
     \<and> journal (snd (alerts_patch_assign ?rq1 demo))
       = [Update ''alerts''
            [(''assigned_vehicle_id'', JNum 8), (''assigned_responder_id'', JNull),
             (''updated_at'', JStr ''2026-01-01T00:00:00.000Z'')] ''id'' (JNum 1),
          Update ''vehicles'' [(''status'', JStr ''available'')] ''id'' (JNum 7),
          Update ''vehicles'' [(''status'', JStr ''assigned'')] ''id'' (JNum 8)]"
    by (simp add: v7 v8 misc)
  from alerts_patch_assign_vehicles [OF hit2 role2 av n78(1) b2 n78(1)]
  have c2: "journal (snd (alerts_patch_assign ?rq2 demo))
       = [Update ''alerts''
            [(''assigned_vehicle_id'', JNum 7), (''assigned_responder_id'', JNull),
             (''updated_at'', JStr ''2026-01-01T00:00:00.000Z'')] ''id'' (JNum 1),
          Update ''vehicles'' [(''status'', JStr ''assigned'')] ''id'' (JNum 7)]"
    by (simp add: misc)
  from av veh c1 c2 show ?thesis by blast
qed

section \<open>Creation\<close>

lemma col_to_json_absent:
  "k \<notin> fst ` set xs \<Longrightarrow> col (to_json xs) k = JNull"
proof -
  assume "k \<notin> fst ` set xs"
  then have "k \<notin> fst ` set (to_json xs)" by (auto simp: to_json_def)
  then have "map_of (to_json xs) k = None" by (simp add: map_of_eq_None_iff)
  then show ?thesis by (simp add: col_def)
qed

lemma col_to_json_present:
  assumes "distinct (map fst xs)" "(k, v) \<in> set xs" "v \<noteq> JUndefined"
  shows "col (to_json xs) k = v"
proof -
  from assms(1) have "distinct (map fst (to_json xs))"
    by (simp add: to_json_def distinct_map_filter)
  moreover from assms(2,3) have "(k, v) \<in> set (to_json xs)"
    by (simp add: to_json_def)
  ultimately have "map_of (to_json xs) k = Some v" by simp
  then show ?thesis by (simp add: col_def)
qed

lemma col_Cons: "col ((k', v) # r) k = (if k = k' then v else col r k)"
  by (simp add: col_def)

lemma insert_pending:
  assumes "distinct (map fst data)" "(''status'', JStr ''pending'') \<in> set data"
    and "''assigned_vehicle_id'' \<notin> fst ` set data"
    and "''assigned_responder_id'' \<notin> fst ` set data"
  shows "\<exists>row. db (snd (pg_insert_single t data s)) = (db s)(t := db s t @ [row])
            \<and> fst (pg_insert_single t data s) = row
            \<and> col row ''status'' = JStr ''pending''
            \<and> col row ''assigned_vehicle_id'' = JNull
            \<and> col row ''assigned_responder_id'' = JNull"
  using assms
  by (simp add: pg_insert_single_def Let_def col_Cons col_to_json_absent
      col_to_json_present [where v = "JStr ''pending''"])

lemma insert_pending_pair:
  assumes "pg_insert_single t data s = (row, s1)"
    and "distinct (map fst data)" "(''status'', JStr ''pending'') \<in> set data"
    and "''assigned_vehicle_id'' \<notin> fst ` set data"
    and "''assigned_responder_id'' \<notin> fst ` set data"
  shows "db s1 = (db s)(t := db s t @ [row])
            \<and> col row ''status'' = JStr ''pending''
            \<and> col row ''assigned_vehicle_id'' = JNull
            \<and> col row ''assigned_responder_id'' = JNull"
  using insert_pending [OF assms(2-5), of t s] assms(1) by auto

lemma crash_created:
  "(db (snd (crash_post rq s)) = db s \<and> code (fst (crash_post rq s)) \<noteq> 201)
   \<or> (\<exists>row. db (snd (crash_post rq s)) = (db s)(''crash_events'' := db s ''crash_events'' @ [row])
         \<and> col row ''status'' = JStr ''pending''
         \<and> col row ''assigned_vehicle_id'' = JNull
         \<and> col row ''assigned_responder_id'' = JNull)"
proof (cases "\<not> truthy (get (body rq) ''latitude'') \<or> \<not> truthy (get (body rq) ''longitude'')")
  case True
  then show ?thesis by (auto simp: crash_post_def Let_def)
next
  case False
  let ?data = "[(''user_id'', u_id rq), (''event_type'', JStr ''AUTO_CRASH''),
               (''latitude'', get (body rq) ''latitude''),
               (''longitude'', get (body rq) ''longitude''),
               (''impact_force'', js_or (get (body rq) ''impact_force'') JNull),
               (''device_battery'', js_or (get (body rq) ''device_battery'') JNull),
               (''network_type'', js_or (get (body rq) ''network_type'') JNull),
               (''status'', JStr ''pending''), (''triggered_at'', JStr (now rq))]"
  from insert_pending [of ?data "''crash_events''" s]
  obtain row where "db (snd (pg_insert_single ''crash_events'' ?data s))
        = (db s)(''crash_events'' := db s ''crash_events'' @ [row])"
    "col row ''status'' = JStr ''pending''" "col row ''assigned_vehicle_id'' = JNull"
    "col row ''assigned_responder_id'' = JNull"
    by auto
  with False show ?thesis
    by (auto simp: crash_post_def Let_def split: prod.splits)
qed

lemma sos_created:
  "(db (snd (sos_post rq s)) = db s \<and> code (fst (sos_post rq s)) \<noteq> 201)
   \<or> (\<exists>row. db (snd (sos_post rq s)) = (db s)(''sos_requests'' := db s ''sos_requests'' @ [row])
         \<and> col row ''status'' = JStr ''pending''
         \<and> col row ''assigned_vehicle_id'' = JNull
         \<and> col row ''assigned_responder_id'' = JNull)"
proof -
  have ins: "db s1 = (db s)(''sos_requests'' := db s ''sos_requests'' @ [row])
      \<and> col row ''status'' = JStr ''pending'' \<and> col row ''assigned_vehicle_id'' = JNull
      \<and> col row ''assigned_responder_id'' = JNull"
    if "pg_insert_single ''sos_requests''
                [(''user_id'', u_id rq), (''type'', get (body rq) ''type''),
                 (''description'', js_or d JNull),
                 (''latitude'', get (body rq) ''latitude''),
                 (''longitude'', get (body rq) ''longitude''),
                 (''status'', JStr ''pending''), (''triggered_at'', JStr (now rq))] s
        = (row, s1)" for d row s1
    using insert_pending_pair [OF that] by simp
  show ?thesis
    by (auto simp: sos_post_def Let_def split: prod.splits sum.splits dest: ins)
qed

lemma alerts_created:
  "(db (snd (alerts_post pf rq s)) = db s \<and> code (fst (alerts_post pf rq s)) \<noteq> 201)
   \<or> (\<exists>row. db (snd (alerts_post pf rq s)) = (db s)(''alerts'' := db s ''alerts'' @ [row])
         \<and> col row ''status'' = JStr ''pending''
         \<and> col row ''assigned_vehicle_id'' = JNull
         \<and> col row ''assigned_responder_id'' = JNull)"
proof -
  have ins: "\<exists>row. db (snd (case pg_insert_single ''alerts''
                [(''user_id'', u_id rq), (''alert_type'', a), (''severity'', b),
                 (''title'', c), (''description'', d), (''location'', e),
                 (''latitude'', f), (''longitude'', g), (''image_url'', h),
                 (''status'', JStr ''pending'')] s of
              (data, s1) \<Rightarrow>
                (case broadcast ''alert:new'' (JObj data) s1 of
                   Inl e \<Rightarrow> (caught e, s1)
                 | Inr s2 \<Rightarrow> (reply 201 (JObj data), s2))))
        = (db s)(''alerts'' := db s ''alerts'' @ [row])
      \<and> col row ''status'' = JStr ''pending'' \<and> col row ''assigned_vehicle_id'' = JNull
      \<and> col row ''assigned_responder_id'' = JNull" for a b c d e f g h
  proof -
    let ?data = "[(''user_id'', u_id rq), (''alert_type'', a), (''severity'', b),
                 (''title'', c), (''description'', d), (''location'', e),
                 (''latitude'', f), (''longitude'', g), (''image_url'', h),
                 (''status'', JStr ''pending'')]"
    obtain data s1 where p: "pg_insert_single ''alerts'' ?data s = (data, s1)"
      by (cases "pg_insert_single ''alerts'' ?data s")
    from insert_pending [of ?data "''alerts''" s] p
    have "db s1 = (db s)(''alerts'' := db s ''alerts'' @ [data])
      \<and> col data ''status'' = JStr ''pending'' \<and> col data ''assigned_vehicle_id'' = JNull
      \<and> col data ''assigned_responder_id'' = JNull"
      by auto
    then show ?thesis
      by (auto simp: p broadcast_tail_state)
  qed
  show ?thesis
  proof (cases "(\<exists>t. trim (get (body rq) ''title'') = Inr t)
              \<and> (\<exists>d. opt_trim (get (body rq) ''description'') = Inr d)
              \<and> (\<exists>l. trim (get (body rq) ''location'') = Inr l)")
    case True
    then obtain t d l where "trim (get (body rq) ''title'') = Inr t"
      "opt_trim (get (body rq) ''description'') = Inr d"
      "trim (get (body rq) ''location'') = Inr l" by blast
    then show ?thesis
      using ins by (simp add: alerts_post_def Let_def)
  next
    case False
    then show ?thesis
      by (auto simp: alerts_post_def Let_def split: sum.splits)
  qed
qed

text \<open>
  C4: whatever the request body holds (a \<open>status\<close> or an assignment field included),
  each of the three create handlers either leaves the store as it was, and then does
  not answer 201, or appends exactly one row to its table, and that row has the status
  \<open>pending\<close> and no assigned vehicle and no assigned responder.
\<close>

theorem create_status_pending:
  "((db (snd (alerts_post parseFloat rq s)) = db s
       \<and> code (fst (alerts_post parseFloat rq s)) \<noteq> 201)
     \<or> (\<exists>row. db (snd (alerts_post parseFloat rq s))
                 = (db s)(''alerts'' := db s ''alerts'' @ [row])
           \<and> col row ''status'' = JStr ''pending''
           \<and> col row ''assigned_vehicle_id'' = JNull
           \<and> col row ''assigned_responder_id'' = JNull))
   \<and> ((db (snd (crash_post rq s)) = db s \<and> code (fst (crash_post rq s)) \<noteq> 201)
     \<or> (\<exists>row. db (snd (crash_post rq s))
                 = (db s)(''crash_events'' := db s ''crash_events'' @ [row])
           \<and> col row ''status'' = JStr ''pending''
           \<and> col row ''assigned_vehicle_id'' = JNull
           \<and> col row ''assigned_responder_id'' = JNull))
   \<and> ((db (snd (sos_post rq s)) = db s \<and> code (fst (sos_post rq s)) \<noteq> 201)
     \<or> (\<exists>row. db (snd (sos_post rq s))
                 = (db s)(''sos_requests'' := db s ''sos_requests'' @ [row])
           \<and> col row ''status'' = JStr ''pending''
           \<and> col row ''assigned_vehicle_id'' = JNull
           \<and> col row ''assigned_responder_id'' = JNull))"
  using alerts_created [of parseFloat rq s] crash_created [of rq s] sos_created [of rq s]
  by blast

text \<open>
  C4 in the sample store, for three bodies that all ask for the status \<open>resolved\<close>;
  the alert's body asks for vehicle 7 as well.
\<close>

theorem create_status_pending_witness:
  "code (fst (alerts_post (\<lambda>v. v)
                (user_rq 10 0 [(''alert_type'', JStr ''medical''), (''severity'', JStr ''high''),
                               (''title'', JStr ''Smoke ''), (''location'', JStr ''Main St''),
                               (''status'', JStr ''resolved''),
                               (''assigned_vehicle_id'', JNum 7)]) demo)) = 201
   \<and> (\<exists>row. db (snd (alerts_post (\<lambda>v. v)
                (user_rq 10 0 [(''alert_type'', JStr ''medical''), (''severity'', JStr ''high''),
                               (''title'', JStr ''Smoke ''), (''location'', JStr ''Main St''),
                               (''status'', JStr ''resolved''),
                               (''assigned_vehicle_id'', JNum 7)]) demo))
               = (db demo)(''alerts'' := db demo ''alerts'' @ [row])
          \<and> col row ''status'' = JStr ''pending''
          \<and> col row ''assigned_vehicle_id'' = JNull
          \<and> col row ''assigned_responder_id'' = JNull)
   \<and> code (fst (crash_post
                (user_rq 10 0 [(''latitude'', JNum 14), (''longitude'', JNum 121),
                               (''status'', JStr ''resolved'')]) demo)) = 201
   \<and> (\<exists>row. db (snd (crash_post
                (user_rq 10 0 [(''latitude'', JNum 14), (''longitude'', JNum 121),
                               (''status'', JStr ''resolved'')]) demo))
               = (db demo)(''crash_events'' := db demo ''crash_events'' @ [row])
          \<and> col row ''status'' = JStr ''pending''
          \<and> col row ''assigned_vehicle_id'' = JNull
          \<and> col row ''assigned_responder_id'' = JNull)
   \<and> code (fst (sos_post
                (user_rq 10 0 [(''type'', JStr ''medical''), (''latitude'', JNum 0),
                               (''longitude'', JNum 0), (''status'', JStr ''resolved'')])
                demo)) = 201
   \<and> (\<exists>row. db (snd (sos_post
                (user_rq 10 0 [(''type'', JStr ''medical''), (''latitude'', JNum 0),
                               (''longitude'', JNum 0), (''status'', JStr ''resolved'')])
                demo))
               = (db demo)(''sos_requests'' := db demo ''sos_requests'' @ [row])
          \<and> col row ''status'' = JStr ''pending''
          \<and> col row ''assigned_vehicle_id'' = JNull
          \<and> col row ''assigned_responder_id'' = JNull)"
proof -
  let ?a = "user_rq 10 0 [(''alert_type'', JStr ''medical''), (''severity'', JStr ''high''),
                          (''title'', JStr ''Smoke ''), (''location'', JStr ''Main St''),
                          (''status'', JStr ''resolved''), (''assigned_vehicle_id'', JNum 7)]"
  let ?c = "user_rq 10 0 [(''latitude'', JNum 14), (''longitude'', JNum 121),
                          (''status'', JStr ''resolved'')]"
  let ?o = "user_rq 10 0 [(''type'', JStr ''medical''), (''latitude'', JNum 0),
                          (''longitude'', JNum 0), (''status'', JStr ''resolved'')]"
  have a: "code (fst (alerts_post (\<lambda>v. v) ?a demo)) = 201"
    by (simp add: alerts_post_def crash_post_def sos_post_def validAlertTypes_def
        validSeverities_def trim_def opt_trim_def trim_string_def is_space_def js_or_def
        pg_insert_single_def num_lt_def num_gt_def Let_def demo_defs store_defs io_defs
        reply_def)
  have c: "code (fst (crash_post ?c demo)) = 201"
    by (simp add: alerts_post_def crash_post_def sos_post_def validAlertTypes_def
        validSeverities_def trim_def opt_trim_def trim_string_def is_space_def js_or_def
        pg_insert_single_def num_lt_def num_gt_def Let_def demo_defs store_defs io_defs
        reply_def)
  have o: "code (fst (sos_post ?o demo)) = 201"
    by (simp add: alerts_post_def crash_post_def sos_post_def validAlertTypes_def
        validSeverities_def trim_def opt_trim_def trim_string_def is_space_def js_or_def
        pg_insert_single_def num_lt_def num_gt_def Let_def demo_defs store_defs io_defs
        reply_def)
  from create_status_pending [of "\<lambda>v. v" ?a demo] create_status_pending [of "\<lambda>v. v" ?c demo]
    create_status_pending [of "\<lambda>v. v" ?o demo] a c o
  show ?thesis by blast
qed

section \<open>The owner of an incident\<close>

text \<open>
  The update handlers of the crash events delete \<open>user_id\<close> from the request body
  before they write, so no body changes the owner of a crash event.
\<close>

lemma crash_put_keeps_owner:
  "map (\<lambda>r. col r ''user_id'') (db (snd (crash_put rq s)) ''crash_events'')
     = map (\<lambda>r. col r ''user_id'') (db s ''crash_events'')"
proof -
  let ?upd = "AList.delete ''triggered_at'' (AList.delete ''updated_at''
                (AList.delete ''created_at'' (AList.delete ''event_type''
                  (AList.delete ''user_id'' (AList.delete ''id'' (body rq))))))"
  have "map_of ?upd ''user_id'' = None"
    by (simp add: delete_conv')
  then have no: "''user_id'' \<notin> fst ` set ?upd"
    by (metis map_of_eq_None_iff)
  have upd: "map (\<lambda>r. col r ''user_id'')
        (db (snd (pg_update_single ''crash_events'' ?upd ''id'' (params_id rq) s)) ''crash_events'')
      = map (\<lambda>r. col r ''user_id'') (db s ''crash_events'')"
    by (simp add: pg_update_single_def db_pg_update col_set_cols_other [OF no]
        split: sum.splits)
  show ?thesis
    using upd
    by (auto simp: crash_put_def Let_def split: sum.splits prod.splits)
qed

text \<open>
  C5 says that no update changes the owner of an incident. The full update of an alert
  writes the whole request body: here an administrator sends \<open>{ user_id: 99 }\<close> for
  alert 1 of the sample store, which user 10 owns; the call answers 200 and the alert
  then belongs to user 99.
\<close>

theorem alerts_put_changes_owner:
  "map (\<lambda>r. col r ''user_id'') (db demo ''alerts'') = [JNum 10, JNum 11, JNum 10]
   \<and> code (fst (alerts_put (staff_rq ''admin'' 1 [(''user_id'', JNum 99)]) demo)) = 200
   \<and> map (\<lambda>r. col r ''user_id'')
        (db (snd (alerts_put (staff_rq ''admin'' 1 [(''user_id'', JNum 99)]) demo)) ''alerts'')
     = [JNum 99, JNum 11, JNum 10]"
  by (simp add: alerts_put_def Let_def demo_defs store_defs io_defs reply_def)

section \<open>Coordinates of crash events and SOS requests\<close>

lemma typeof_number: "(typeof v = ''number'') = (\<exists>x. v = JNum x)"
  by (cases v) simp_all

lemma sos_rejects:
  assumes "truthy (get (body rq) ''type'')"
  shows "(code (fst (sos_post rq s)) = 400)
       = (\<not> (\<exists>x y. get (body rq) ''latitude'' = JNum x \<and> get (body rq) ''longitude'' = JNum y
                 \<and> - 90 \<le> x \<and> x \<le> 90 \<and> - 180 \<le> y \<and> y \<le> 180))"
proof (cases "\<exists>x y. get (body rq) ''latitude'' = JNum x \<and> get (body rq) ''longitude'' = JNum y")
  case True
  then obtain x y where "get (body rq) ''latitude'' = JNum x" "get (body rq) ''longitude'' = JNum y"
    by blast
  with assms show ?thesis
    by (cases "opt_trim (get (body rq) ''description'')")
      (auto simp: sos_post_def Let_def num_lt_def num_gt_def split: prod.splits)
next
  case False
  then have "typeof (get (body rq) ''latitude'') \<noteq> ''number''
      \<or> typeof (get (body rq) ''longitude'') \<noteq> ''number''"
    by (auto simp: typeof_number)
  with False assms show ?thesis
    by (auto simp: sos_post_def Let_def)
qed

lemma sos_accepts:
  assumes "truthy (get (body rq) ''type'')"
    and "get (body rq) ''latitude'' = JNum x" "- 90 \<le> x" "x \<le> 90"
    and "get (body rq) ''longitude'' = JNum y" "- 180 \<le> y" "y \<le> 180"
    and "get (body rq) ''description'' = JUndefined \<or> get (body rq) ''description'' = JNull
         \<or> (\<exists>d. get (body rq) ''description'' = JStr d)"
  shows "code (fst (sos_post rq s)) = 201"
  using assms
  by (auto simp: sos_post_def Let_def num_lt_def num_gt_def opt_trim_def trim_def
      split: prod.splits)

text \<open>
  C10: the crash handler answers 400 "Latitude and longitude are required" whenever the
  latitude or the longitude of the body is falsy, and the number 0 is falsy. The SOS
  handler, for a body with a type, answers 400 exactly when the latitude and the
  longitude are not both numbers within [-90, 90] and [-180, 180] (a missing value and
  \<open>null\<close> are not numbers); with latitude 0 and longitude 0, and a description that
  is absent, \<open>null\<close> or a string, it answers 201.
\<close>

theorem coordinates_zero:
  "(\<not> truthy (get (body rq) ''latitude'') \<or> \<not> truthy (get (body rq) ''longitude'') \<longrightarrow>
       crash_post rq s = (reply 400 (message ''Latitude and longitude are required''), s))
   \<and> \<not> truthy (JNum 0)
   \<and> (truthy (get (body rq) ''type'') \<longrightarrow>
        (code (fst (sos_post rq s)) = 400)
        = (\<not> (\<exists>x y. get (body rq) ''latitude'' = JNum x \<and> get (body rq) ''longitude'' = JNum y
                 \<and> - 90 \<le> x \<and> x \<le> 90 \<and> - 180 \<le> y \<and> y \<le> 180)))
   \<and> (truthy (get (body rq) ''type'')
        \<and> get (body rq) ''latitude'' = JNum 0 \<and> get (body rq) ''longitude'' = JNum 0
        \<and> (get (body rq) ''description'' = JUndefined \<or> get (body rq) ''description'' = JNull
            \<or> (\<exists>d. get (body rq) ''description'' = JStr d)) \<longrightarrow>
        code (fst (sos_post rq s)) = 201)"
  using sos_rejects [of rq s] sos_accepts [of rq 0 0 s]
  by (auto simp: crash_post_def Let_def)

text \<open>
  C10 in the sample store: a crash at latitude 0 is refused, an SOS at latitude 0 and
  longitude 0 is accepted, an SOS at latitude 91 is refused.
\<close>

theorem coordinates_zero_witness:
  "\<not> truthy (get (body (user_rq 10 0 [(''latitude'', JNum 0), (''longitude'', JNum 121)])) ''latitude'')
   \<and> crash_post (user_rq 10 0 [(''latitude'', JNum 0), (''longitude'', JNum 121)]) demo
       = (reply 400 (message ''Latitude and longitude are required''), demo)
   \<and> truthy (get (body (user_rq 10 0 [(''type'', JStr ''medical''), (''latitude'', JNum 0),
                                       (''longitude'', JNum 0)])) ''type'')
   \<and> code (fst (sos_post (user_rq 10 0 [(''type'', JStr ''medical''), (''latitude'', JNum 0),
                                        (''longitude'', JNum 0)]) demo)) = 201
   \<and> code (fst (sos_post (user_rq 10 0 [(''type'', JStr ''medical''), (''latitude'', JNum 91),
                                        (''longitude'', JNum 0)]) demo)) = 400"
proof -
  let ?c = "user_rq 10 0 [(''latitude'', JNum 0), (''longitude'', JNum 121)]"
  let ?o = "user_rq 10 0 [(''type'', JStr ''medical''), (''latitude'', JNum 0),
                          (''longitude'', JNum 0)]"
  let ?p = "user_rq 10 0 [(''type'', JStr ''medical''), (''latitude'', JNum 91),
                          (''longitude'', JNum 0)]"
  have c: "\<not> truthy (get (body ?c) ''latitude'')"
    by (simp add: user_rq_def get_def)
  have o: "truthy (get (body ?o) ''type'')" "get (body ?o) ''latitude'' = JNum 0"
    "get (body ?o) ''longitude'' = JNum 0" "get (body ?o) ''description'' = JUndefined"
    by (simp_all add: user_rq_def get_def)
  have p: "truthy (get (body ?p) ''type'')" "get (body ?p) ''latitude'' = JNum 91"
    "get (body ?p) ''longitude'' = JNum 0"
    by (simp_all add: user_rq_def get_def)
  from coordinates_zero [of ?c demo] c
  have 1: "crash_post ?c demo = (reply 400 (message ''Latitude and longitude are required''), demo)"
    by blast
  from coordinates_zero [of ?o demo] o
  have 2: "code (fst (sos_post ?o demo)) = 201"
    by simp
  from coordinates_zero [of ?p demo] p
  have 3: "code (fst (sos_post ?p demo)) = 400"
    by simp
  from c o(1) 1 2 3 show ?thesis by blast
qed

section \<open>What a user can read\<close>

lemma set_insert_desc: "set (insert_desc key x xs) = insert x (set xs)"
  by (induction xs) auto

lemma set_sort_desc: "set (sort_desc key xs) = set xs"
  by (induction xs) (simp_all add: sort_desc_def set_insert_desc)

lemma q_conds_simps [simp]:
  "q_conds (pg_from t) = []"
  "q_conds (q_eq c v q) = q_conds q @ [Eq c v]"
  "q_conds (q_gte c v q) = q_conds q @ [Gte c v]"
  "q_conds (q_lte c v q) = q_conds q @ [Lte c v]"
  "q_conds (q_order_desc c q) = q_conds q"
  by (simp_all add: pg_from_def q_eq_def q_gte_def q_lte_def q_order_desc_def)

lemma set_run:
  "set (run q s) = {r \<in> set (db s (q_from q)). list_all (\<lambda>c. sat c r) (q_conds q)}"
  by (auto simp: run_def Let_def set_sort_desc split: option.splits)

lemma run_own:
  assumes "Eq ''user_id'' u \<in> set (q_conds q)"
  shows "list_all (\<lambda>r. col r ''user_id'' = u) (run q s)"
proof -
  have "col r ''user_id'' = u" if "r \<in> set (run q s)" for r
  proof -
    from that have "list_all (\<lambda>c. sat c r) (q_conds q)" by (simp add: set_run)
    with assms have "sat (Eq ''user_id'' u) r" by (auto simp: list_all_iff)
    then show ?thesis by simp
  qed
  then show ?thesis by (simp add: list_all_iff)
qed

lemma list_all_subset: "list_all P xs \<Longrightarrow> set ys \<subseteq> set xs \<Longrightarrow> list_all P ys"
  by (auto simp: list_all_iff)

lemma set_window: "set (take n (drop m xs)) \<subseteq> set xs"
  by (meson set_take_subset set_drop_subset subset_trans)

lemma pg_range_subset: "pg_range a b rows = Inr data \<Longrightarrow> set data \<subseteq> set rows"
  by (auto simp: pg_range_def set_window split: option.splits if_splits)
    (meson in_set_takeD in_set_dropD)

lemma pg_limit_subset: "pg_limit n rows = Inr data \<Longrightarrow> set data \<subseteq> set rows"
  by (auto simp: pg_limit_def split: jsval.splits if_splits dest: in_set_takeD)

lemma js_slice_subset: "set (js_slice a b xs) \<subseteq> set xs"
  by (simp add: js_slice_def Let_def set_window)

lemma code_caught_plain [simp]: "code (caught_plain e) = 500"
  by (cases e) simp

lemma own_exI:
  "list_all P rows \<Longrightarrow> \<exists>rows'. map JObj rows = map JObj rows' \<and> list_all P rows'"
  by blast

lemma alerts_get_own:
  assumes "u_role rq = JStr ''user''"
  shows "\<exists>rows. fst (alerts_get rq s) = reply 200 (JArr (map JObj rows))
           \<and> list_all (\<lambda>r. col r ''user_id'' = u_id rq) rows"
  using assms by (simp add: alerts_get_def Let_def run_own own_exI)


lemma crash_tail:
  assumes "list_all P rows"
  shows "code (fst (case pg_range a b rows of
                      Inl e \<Rightarrow> (caught_plain e, s)
                    | Inr data \<Rightarrow>
                        (reply 200 (JObj [(''data'', JArr (map JObj data)),
                                          (''pagination'', f data)]), s))) = 500
     \<or> (\<exists>rows' pg. fst (case pg_range a b rows of
                      Inl e \<Rightarrow> (caught_plain e, s)
                    | Inr data \<Rightarrow>
                        (reply 200 (JObj [(''data'', JArr (map JObj data)),
                                          (''pagination'', f data)]), s))
                    = reply 200 (JObj [(''data'', JArr (map JObj rows')), (''pagination'', pg)])
           \<and> list_all P rows')"
proof (cases "pg_range a b rows")
  case (Inl e)
  then show ?thesis by simp
next
  case (Inr data)
  from assms pg_range_subset [OF Inr] have "list_all P data"
    by (rule list_all_subset)
  with Inr show ?thesis by auto
qed

lemma crash_get_own:
  assumes "u_role rq = JStr ''user''"
  shows "code (fst (crash_get parseInt rq s)) = 500
     \<or> (\<exists>rows pg. fst (crash_get parseInt rq s)
                    = reply 200 (JObj [(''data'', JArr (map JObj rows)), (''pagination'', pg)])
           \<and> list_all (\<lambda>r. col r ''user_id'' = u_id rq) rows)"
  unfolding crash_get_def Let_def
  by (rule crash_tail, rule run_own) (simp add: assms)

lemma sos_tail:
  assumes "list_all P rows"
  shows "code (fst (case pg_limit n rows of
                      Inl e \<Rightarrow> (caught e, s)
                    | Inr data \<Rightarrow> (reply 200 (JArr (map JObj data)), s))) = 500
     \<or> (\<exists>rows'. fst (case pg_limit n rows of
                      Inl e \<Rightarrow> (caught e, s)
                    | Inr data \<Rightarrow> (reply 200 (JArr (map JObj data)), s))
                    = reply 200 (JArr (map JObj rows'))
           \<and> list_all P rows')"
proof (cases "pg_limit n rows")
  case (Inl e)
  then show ?thesis by simp
next
  case (Inr data)
  from assms pg_limit_subset [OF Inr] have "list_all P data"
    by (rule list_all_subset)
  with Inr show ?thesis by auto
qed

lemma sos_get_own:
  assumes "u_role rq = JStr ''user''"
  shows "code (fst (sos_get rq s)) = 500
     \<or> (\<exists>rows. fst (sos_get rq s) = reply 200 (JArr (map JObj rows))
           \<and> list_all (\<lambda>r. col r ''user_id'' = u_id rq) rows)"
  unfolding sos_get_def Let_def
  by (rule sos_tail, rule run_own) (simp add: assms)


lemma buildBaseQuery_own:
  "u_role rq = JStr ''user'' \<Longrightarrow>
   Eq ''user_id'' (u_id rq) \<in> set (q_conds (buildBaseQuery rq table ts))"
  by (simp add: buildBaseQuery_def Let_def)

lemma get_combined_item:
  "get (combined_item src ts item) ''userId'' = col item ''user_id''"
  "get (combined_item src ts item) ''data'' = JObj item"
  by (simp_all add: combined_item_def get_def)

lemma incidents_get_own:
  assumes "u_role rq = JStr ''user''"
  shows "\<exists>items pg. fst (incidents_get parseInt rq s)
                    = reply 200 (JObj [(''data'', JArr (map JObj items)), (''pagination'', pg)])
           \<and> list_all (\<lambda>it. get it ''userId'' = u_id rq
                            \<and> (\<exists>r. get it ''data'' = JObj r \<and> col r ''user_id'' = u_id rq))
                items"
proof -
  let ?P = "\<lambda>it. get it ''userId'' = u_id rq
                \<and> (\<exists>r. get it ''data'' = JObj r \<and> col r ''user_id'' = u_id rq)"
  have items: "list_all ?P (map (combined_item src ts) (run q s))"
    if "Eq ''user_id'' (u_id rq) \<in> set (q_conds q)" for src ts q
    using run_own [OF that, of s] by (simp add: list_all_iff get_combined_item)
  define alerts where "alerts =
    (if dflt (get (query rq) ''type'') (JStr ''all'') = JStr ''alert''
        \<or> dflt (get (query rq) ''type'') (JStr ''all'') = JStr ''all''
     then map (combined_item ''alert'' ''reported_at'')
            (run (q_order_desc ''reported_at'' (buildBaseQuery rq ''alerts'' ''reported_at'')) s)
     else [])"
  define crashes where "crashes =
    (if dflt (get (query rq) ''type'') (JStr ''all'') = JStr ''crash''
        \<or> dflt (get (query rq) ''type'') (JStr ''all'') = JStr ''all''
     then map (combined_item ''crash'' ''triggered_at'')
            (run (q_order_desc ''triggered_at'' (q_eq ''event_type'' (JStr ''AUTO_CRASH'')
               (buildBaseQuery rq ''crash_events'' ''triggered_at''))) s)
     else [])"
  define page where "page =
    js_slice (parseInt (dflt (get (query rq) ''offset'') (JNum 0)))
      (js_plus (parseInt (dflt (get (query rq) ''offset'') (JNum 0)))
         (parseInt (dflt (get (query rq) ''limit'') (JNum 20))))
      (sort_desc (\<lambda>a. ts_key (get a ''timestamp'')) (alerts @ crashes))"
  have a: "list_all ?P alerts"
    unfolding alerts_def using items [of "q_order_desc ''reported_at''
        (buildBaseQuery rq ''alerts'' ''reported_at'')"] buildBaseQuery_own [OF assms]
    by simp
  have c: "list_all ?P crashes"
    unfolding crashes_def using items [of "q_order_desc ''triggered_at''
        (q_eq ''event_type'' (JStr ''AUTO_CRASH'')
           (buildBaseQuery rq ''crash_events'' ''triggered_at''))"]
      buildBaseQuery_own [OF assms]
    by simp
  from a c have "list_all ?P (sort_desc (\<lambda>a. ts_key (get a ''timestamp'')) (alerts @ crashes))"
    by (auto simp: list_all_iff set_sort_desc)
  then have p: "list_all ?P page"
    unfolding page_def using js_slice_subset by (rule list_all_subset)
  have "fst (incidents_get parseInt rq s) =
      reply 200 (JObj [(''data'', JArr (map JObj page)),
        (''pagination'',
           JObj [(''total'', JNum (real (length (sort_desc (\<lambda>a. ts_key (get a ''timestamp''))
                                                   (alerts @ crashes))))),
                 (''limit'', js_num (parseInt (dflt (get (query rq) ''limit'') (JNum 20)))),
                 (''offset'', js_num (parseInt (dflt (get (query rq) ''offset'') (JNum 0)))),
                 (''returned'', JNum (real (length page)))])])"
    by (simp add: incidents_get_def Let_def page_def alerts_def crashes_def)
  with p show ?thesis by blast
qed

lemma strict_eq_imp: "strict_eq a b \<Longrightarrow> a = b"
  by (cases a) simp_all

lemma alerts_get_id_own:
  assumes "u_role rq = JStr ''user''"
  shows "(\<forall>data. fst (alerts_get_id rq s) = reply 200 (JObj data)
                \<longrightarrow> col data ''user_id'' = u_id rq)
     \<and> (\<forall>r. filter (\<lambda>r. col r ''id'' = params_id rq) (db s ''alerts'') = [r]
              \<and> col r ''user_id'' \<noteq> u_id rq
            \<longrightarrow> alerts_get_id rq s = (reply 403 (message ''Access denied''), s))"
proof (cases "pg_select_single ''alerts'' (\<lambda>r. r) ''id'' (params_id rq) s")
  case (Inl e)
  then have 1: "fst (alerts_get_id rq s) = caught e"
    by (simp add: alerts_get_id_def)
  have 2: "filter (\<lambda>r. col r ''id'' = params_id rq) (db s ''alerts'') \<noteq> [r]" for r
    using Inl by (auto simp: pg_select_single_def)
  have "caught e \<noteq> reply 200 p" for p
    by (cases e) simp
  with 1 2 show ?thesis by simp
next
  case (Inr data)
  then have hit: "filter (\<lambda>r. col r ''id'' = params_id rq) (db s ''alerts'') = [data]"
    by (auto simp: pg_select_single_def single_def split: list.splits)
  show ?thesis
  proof (cases "strict_eq (col data ''user_id'') (u_id rq)")
    case True
    then have "col data ''user_id'' = u_id rq" by (rule strict_eq_imp)
    with Inr True assms hit show ?thesis
      by (simp add: alerts_get_id_def)
  next
    case False
    with Inr assms hit show ?thesis
      by (simp add: alerts_get_id_def message_def)
  qed
qed

text \<open>
  C6: for an actor with the role \<open>user\<close>, every list endpoint (the alerts, the crash
  events, the SOS requests and the combined list) answers either with a store error
  or with records that all carry the actor's id as \<open>user_id\<close>; the single-get of an
  alert answers 200 only with an alert whose \<open>user_id\<close> is the actor's id, and for an
  alert of another user it answers 403 "Access denied" and not the record.
\<close>

theorem user_reads_only_own:
  assumes "u_role rq = JStr ''user''"
  shows "(\<exists>rows. fst (alerts_get rq s) = reply 200 (JArr (map JObj rows))
            \<and> list_all (\<lambda>r. col r ''user_id'' = u_id rq) rows)
    \<and> (code (fst (crash_get parseInt rq s)) = 500
        \<or> (\<exists>rows pg. fst (crash_get parseInt rq s)
                    = reply 200 (JObj [(''data'', JArr (map JObj rows)), (''pagination'', pg)])
              \<and> list_all (\<lambda>r. col r ''user_id'' = u_id rq) rows))
    \<and> (code (fst (sos_get rq s)) = 500
        \<or> (\<exists>rows. fst (sos_get rq s) = reply 200 (JArr (map JObj rows))
              \<and> list_all (\<lambda>r. col r ''user_id'' = u_id rq) rows))
    \<and> (\<exists>items pg. fst (incidents_get parseInt rq s)
                    = reply 200 (JObj [(''data'', JArr (map JObj items)), (''pagination'', pg)])
           \<and> list_all (\<lambda>it. get it ''userId'' = u_id rq
                            \<and> (\<exists>r. get it ''data'' = JObj r \<and> col r ''user_id'' = u_id rq))
                items)
    \<and> (\<forall>data. fst (alerts_get_id rq s) = reply 200 (JObj data)
                \<longrightarrow> col data ''user_id'' = u_id rq)
    \<and> (\<forall>r. filter (\<lambda>r. col r ''id'' = params_id rq) (db s ''alerts'') = [r]
              \<and> col r ''user_id'' \<noteq> u_id rq
            \<longrightarrow> alerts_get_id rq s = (reply 403 (message ''Access denied''), s))"
  using alerts_get_own [OF assms, of s] crash_get_own [OF assms, of parseInt s]
    sos_get_own [OF assms, of s] incidents_get_own [OF assms, of parseInt s]
    alerts_get_id_own [OF assms, of s]
  by blast

text \<open>
  C6 for user 10 in the sample store: the list holds alerts of user 10 only, alert 2
  (of user 11) is refused, alert 1 (the user's own) is returned.
\<close>

theorem user_reads_only_own_witness:
  "u_role (user_rq 10 2 []) = JStr ''user''
   \<and> (\<exists>rows. fst (alerts_get (user_rq 10 2 []) demo) = reply 200 (JArr (map JObj rows))
          \<and> list_all (\<lambda>r. col r ''user_id'' = JNum 10) rows)
   \<and> col [(''id'', JNum 2), (''user_id'', JNum 11), (''status'', JStr ''pending'')] ''user_id''
       \<noteq> u_id (user_rq 10 2 [])
   \<and> alerts_get_id (user_rq 10 2 []) demo = (reply 403 (message ''Access denied''), demo)
   \<and> fst (alerts_get_id (user_rq 10 1 []) demo)
       = reply 200 (JObj [(''id'', JNum 1), (''user_id'', JNum 10),
                          (''status'', JStr ''resolved''), (''assigned_vehicle_id'', JNum 7)])
   \<and> col [(''id'', JNum 1), (''user_id'', JNum 10), (''status'', JStr ''resolved''),
           (''assigned_vehicle_id'', JNum 7)] ''user_id'' = JNum 10"
proof -
  let ?a1 = "[(''id'', JNum 1), (''user_id'', JNum 10), (''status'', JStr ''resolved''),
              (''assigned_vehicle_id'', JNum 7)]"
  let ?a2 = "[(''id'', JNum 2), (''user_id'', JNum 11), (''status'', JStr ''pending'')]"
  have role: "u_role (user_rq 10 i []) = JStr ''user''" for i
    by (simp add: user_rq_def)
  have uid: "u_id (user_rq 10 i []) = JNum 10" for i
    by (simp add: user_rq_def)
  have hit2: "filter (\<lambda>r. col r ''id'' = params_id (user_rq 10 2 [])) (db demo ''alerts'') = [?a2]"
    by (simp add: demo_defs col_def)
  have other: "col ?a2 ''user_id'' \<noteq> u_id (user_rq 10 2 [])"
    by (simp add: user_rq_def col_def)
  have own: "fst (alerts_get_id (user_rq 10 1 []) demo) = reply 200 (JObj ?a1)"
    by (simp add: alerts_get_id_def demo_defs store_defs)
  note t2 = user_reads_only_own [OF role, of 2 demo "\<lambda>v. None"]
  note t1 = user_reads_only_own [OF role, of 1 demo "\<lambda>v. None"]
  note lst = t2 [THEN conjunct1]
  note get_own = t1 [THEN conjunct2, THEN conjunct2, THEN conjunct2, THEN conjunct2,
      THEN conjunct1, rule_format]
  note get_other = t2 [THEN conjunct2, THEN conjunct2, THEN conjunct2, THEN conjunct2,
      THEN conjunct2, rule_format]
  from lst have l: "\<exists>rows. fst (alerts_get (user_rq 10 2 []) demo)
            = reply 200 (JArr (map JObj rows))
          \<and> list_all (\<lambda>r. col r ''user_id'' = JNum 10) rows"
    by (simp only: uid)
  from hit2 other have d: "alerts_get_id (user_rq 10 2 []) demo
      = (reply 403 (message ''Access denied''), demo)"
    by (intro get_other conjI)
  from get_own [OF own] have o: "col ?a1 ''user_id'' = JNum 10"
    by (simp only: uid)
  from role [of 2] l other d own o show ?thesis by (intro conjI)
qed

end
